theory Spec2Isabelle
  imports Complex_Main
begin

section \<open>Python values used by vardefunc/noise.py\<close>

text \<open>
  Python floats are modelled by reals: first exactly (no binary rounding, no overflow),
  then, in the section on floating-point arithmetic, with every operation rounded to
  the nearest float; Python ints by \<open>int\<close>. Every \<^verbatim>\<open>raise\<close> of the source, and every exception the
  interpreter raises for an operation the source performs (a division by zero, an index
  into an empty list), is a value on the left of a sum. \<open>VsError\<close> is the
  \<^verbatim>\<open>vapoursynth.Error\<close> of a rejected expression.
\<close>

datatype py_error = ValueError | ZeroDivisionError | IndexError | FormatError | VsError

text \<open>
  \<^verbatim>\<open>round(x)\<close> on a float: the nearest int, a tie going to the even neighbour.
\<close>

definition py_round :: "real \<Rightarrow> int" where
  "py_round x =
     (let f = \<lfloor>x\<rfloor>; d = x - of_int f
      in if d < 1 / 2 then f
         else if 1 / 2 < d then f + 1
         else if even f then f else f + 1)"

text \<open>\<^verbatim>\<open>a / b\<close> on floats (or an int and a float).\<close>

definition py_truediv :: "real \<Rightarrow> real \<Rightarrow> py_error + real" where
  "py_truediv a b = (if b = 0 then Inl ZeroDivisionError else Inr (a / b))"

text \<open>\<^verbatim>\<open>[x] * n\<close>: the empty list when \<open>n\<close> is zero or negative.\<close>

definition py_repeat :: "'a \<Rightarrow> int \<Rightarrow> 'a list" where
  "py_repeat x n = replicate (nat n) x"

section \<open>Grainers\<close>

text \<open>
  The three subclasses of \<^verbatim>\<open>Grainer\<close>; each keeps the keyword arguments it was
  built with (\<^verbatim>\<open>self.kwargs\<close>).
\<close>

datatype kwarg = KInt int | KBool bool | KFloat real

datatype grainer =
  AddGrain "(string \<times> kwarg) list"
| PlaceboGrain "(string \<times> kwarg) list"
| F3kdbGrain "(string \<times> kwarg) list"

text \<open>The default of \<^verbatim>\<open>grainers\<close>: \<^verbatim>\<open>AddGrain(seed=-1, constant=False)\<close>.\<close>

definition default_grainer :: grainer where
  "default_grainer = AddGrain [(''seed'', KInt (- 1)), (''constant'', KBool False)]"

section \<open>Graigasm: construction\<close>

record 'g graigasm =
  thrs :: "real list"
  strengths :: "(real \<times> real) list"
  sizes :: "real list"
  sharps :: "real list"
  overflows :: "real list"
  grainers :: "'g list"

text \<open>
  The keyword argument \<^verbatim>\<open>overflows: Union[float, Sequence[float], None]\<close> and
  \<^verbatim>\<open>grainers: Union[Grainer, Sequence[Grainer]]\<close>, one constructor per member of
  the union.
\<close>

datatype overflows_arg = OvfNone | OvfFloat real | OvfSeq "real list"

datatype 'g grainers_arg = OneGrainer 'g | GrainerSeq "'g list"

text \<open>
  \<^verbatim>\<open>lst += [lst[-1]] * (length - len(lst))\<close>: \<^verbatim>\<open>lst[-1]\<close> is evaluated first
  and raises IndexError on an empty list, whatever the count is.
\<close>

definition pad_last :: "'a list \<Rightarrow> nat \<Rightarrow> py_error + 'a list" where
  "pad_last lst n =
     (if lst = [] then Inl IndexError
      else Inr (lst @ py_repeat (last lst) (int n - int (length lst))))"

text \<open>
  Lines 103 to 106: \<^verbatim>\<open>all(len(lst) != length for lst in datas)\<close> over
  \<^verbatim>\<open>datas = [strengths, sizes, sharps]\<close>.
\<close>

definition length_check :: "nat \<Rightarrow> nat list \<Rightarrow> bool" where
  "length_check n lens = list_all (\<lambda>l. l \<noteq> n) lens"

definition init_overflows :: "nat \<Rightarrow> overflows_arg \<Rightarrow> py_error + real list" where
  "init_overflows n a =
     (case a of
        OvfNone \<Rightarrow>
          (case py_truediv 1 (real n) of
             Inl e \<Rightarrow> Inl e
           | Inr d \<Rightarrow> pad_last [d] n)
      | OvfFloat v \<Rightarrow> Inr (py_repeat v (int n))
      | OvfSeq vs \<Rightarrow> pad_last vs n)"

definition init_grainers :: "nat \<Rightarrow> 'g grainers_arg \<Rightarrow> py_error + 'g list" where
  "init_grainers n a =
     (case a of
        OneGrainer g \<Rightarrow> Inr (py_repeat g (int n))
      | GrainerSeq gs \<Rightarrow> pad_last gs n)"

definition init ::
  "real list \<Rightarrow> (real \<times> real) list \<Rightarrow> real list \<Rightarrow> real list \<Rightarrow>
   overflows_arg \<Rightarrow> 'g grainers_arg \<Rightarrow> py_error + 'g graigasm" where
  "init ths strs szs shs ovf_arg gr_arg =
     (let n = length ths in
      if length_check n [length strs, length szs, length shs] then Inl ValueError
      else
        case init_overflows n ovf_arg of
          Inl e \<Rightarrow> Inl e
        | Inr ovfs \<Rightarrow>
            (case init_grainers n gr_arg of
               Inl e \<Rightarrow> Inl e
             | Inr grs \<Rightarrow>
                 Inr \<lparr>thrs = ths, strengths = strs, sizes = szs, sharps = shs,
                      overflows = ovfs, grainers = grs\<rparr>))"

section \<open>Chroma alignment and the down-sampled size\<close>

text \<open>The dictionary \<^verbatim>\<open>ss_mod\<close> of \<^verbatim>\<open>_get_mod\<close>, in the order it is written.\<close>

definition ss_mod :: "((int \<times> int) \<times> int) list" where
  "ss_mod = [((0, 0), 1), ((1, 1), 2), ((1, 0), 2), ((0, 1), 2), ((2, 2), 4), ((2, 0), 4)]"

text \<open>The KeyError of a missing pair is caught and raised again as ValueError.\<close>

definition get_mod :: "int \<times> int \<Rightarrow> py_error + int" where
  "get_mod ss = (case map_of ss_mod ss of None \<Rightarrow> Inl ValueError | Some m \<Rightarrow> Inr m)"

text \<open>
  \<^verbatim>\<open>_m__(x, mod) = x - x % mod\<close>. Python's \<^verbatim>\<open>%\<close> on ints takes the sign
  of the divisor, as \<open>mod\<close> on \<open>int\<close> does, and raises on a zero divisor.
\<close>

definition mod_floor :: "int \<Rightarrow> int \<Rightarrow> py_error + int" where
  "mod_floor x m = (if m = 0 then Inl ZeroDivisionError else Inr (x - x mod m))"

text \<open>
  Lines 194 and 195 of \<^verbatim>\<open>_make_grained\<close>:
  \<^verbatim>\<open>ss_w = _m__(round(clip.width / size), mod)\<close> and the same for the height.
\<close>

definition ss_dim :: "int \<Rightarrow> real \<Rightarrow> int \<Rightarrow> py_error + int" where
  "ss_dim extent sz m =
     (case py_truediv (of_int extent) sz of
        Inl e \<Rightarrow> Inl e
      | Inr q \<Rightarrow> mod_floor (py_round q) m)"

definition ss_dims :: "int \<Rightarrow> int \<Rightarrow> real \<Rightarrow> int \<Rightarrow> py_error + int \<times> int" where
  "ss_dims w h sz m =
     (case ss_dim w sz m of
        Inl e \<Rightarrow> Inl e
      | Inr ss_w \<Rightarrow>
          (case ss_dim h sz m of
             Inl e \<Rightarrow> Inl e
           | Inr ss_h \<Rightarrow> Inr (ss_w, ss_h)))"

section \<open>Per-sample expressions\<close>

text \<open>
  The source hands per-sample arithmetic to \<^verbatim>\<open>core.std.Expr\<close> as a string in
  reverse Polish notation. A string is modelled by its list of tokens; a number
  formatted into the string by an f-string is the token \<open>Num\<close> of that number, and
  \<open>Hole\<close> is the placeholder \<^verbatim>\<open>_\<close> that \<^verbatim>\<open>_make_mask\<close> fills in
  with \<^verbatim>\<open>str.replace\<close>.
\<close>

datatype token =
  ClipX | ClipY | ClipZ | Num real
| Add | Sub | Mul | Div | Abs
| Ge | Le | Lt | Gt | And | Tern | Hole

text \<open>
  The evaluator computes in floats, where a division by zero raises nothing: it gives
  an infinity, or NaN for \<open>0/0\<close>. A sample is a finite real (exact, as everywhere in
  this model) or one of the three special values; a zero divisor counts as \<open>+0\<close>.
\<close>

datatype fval = Fin real | PInf | NInf | NaN

fun fsign :: "fval \<Rightarrow> int" where
  "fsign (Fin x) = (if x < 0 then - 1 else if x = 0 then 0 else 1)"
| "fsign PInf = 1"
| "fsign NInf = - 1"
| "fsign NaN = 0"

definition finf :: "int \<Rightarrow> fval" where
  "finf s = (if s = 0 then NaN else if 0 < s then PInf else NInf)"

fun fneg :: "fval \<Rightarrow> fval" where
  "fneg (Fin x) = Fin (- x)"
| "fneg PInf = NInf"
| "fneg NInf = PInf"
| "fneg NaN = NaN"

fun fadd :: "fval \<Rightarrow> fval \<Rightarrow> fval" where
  "fadd NaN b = NaN"
| "fadd a NaN = NaN"
| "fadd (Fin x) (Fin y) = Fin (x + y)"
| "fadd (Fin x) b = b"
| "fadd a (Fin y) = a"
| "fadd a b = (if a = b then a else NaN)"

definition fsub :: "fval \<Rightarrow> fval \<Rightarrow> fval" where
  "fsub a b = fadd a (fneg b)"

fun fmul :: "fval \<Rightarrow> fval \<Rightarrow> fval" where
  "fmul NaN b = NaN"
| "fmul a NaN = NaN"
| "fmul (Fin x) (Fin y) = Fin (x * y)"
| "fmul a b = finf (fsign a * fsign b)"

fun fdiv :: "fval \<Rightarrow> fval \<Rightarrow> fval" where
  "fdiv NaN b = NaN"
| "fdiv a NaN = NaN"
| "fdiv (Fin x) (Fin y) = (if y = 0 then finf (fsign (Fin x)) else Fin (x / y))"
| "fdiv (Fin x) b = Fin 0"
| "fdiv a (Fin y) = finf (fsign a * (if y < 0 then - 1 else 1))"
| "fdiv a b = NaN"

fun fabs :: "fval \<Rightarrow> fval" where
  "fabs (Fin x) = Fin \<bar>x\<bar>"
| "fabs PInf = PInf"
| "fabs NInf = PInf"
| "fabs NaN = NaN"

text \<open>Comparisons: false as soon as one side is NaN.\<close>

fun fle :: "fval \<Rightarrow> fval \<Rightarrow> bool" where
  "fle NaN b = False"
| "fle a NaN = False"
| "fle (Fin x) (Fin y) = (x \<le> y)"
| "fle NInf b = True"
| "fle a PInf = True"
| "fle a b = False"

definition flt :: "fval \<Rightarrow> fval \<Rightarrow> bool" where
  "flt a b = (fle a b \<and> \<not> fle b a)"

text \<open>A comparison leaves 1.0 or 0.0; a value counts as true when it is above zero.\<close>

definition fbool :: "bool \<Rightarrow> fval" where
  "fbool b = (if b then Fin 1 else Fin 0)"

definition truthy :: "fval \<Rightarrow> bool" where
  "truthy a = flt (Fin 0) a"

text \<open>
  One token against the stack (its head is the top). \<open>None\<close>: the expression is
  rejected (a missing operand, a clip letter with no clip, a token that is no operator
  and no number).
\<close>

fun step :: "fval list \<Rightarrow> token \<Rightarrow> fval list \<Rightarrow> fval list option" where
  "step env ClipX st = (if 0 < length env then Some (env ! 0 # st) else None)"
| "step env ClipY st = (if 1 < length env then Some (env ! 1 # st) else None)"
| "step env ClipZ st = (if 2 < length env then Some (env ! 2 # st) else None)"
| "step env (Num c) st = Some (Fin c # st)"
| "step env Add (b # a # st) = Some (fadd a b # st)"
| "step env Sub (b # a # st) = Some (fsub a b # st)"
| "step env Mul (b # a # st) = Some (fmul a b # st)"
| "step env Div (b # a # st) = Some (fdiv a b # st)"
| "step env Abs (a # st) = Some (fabs a # st)"
| "step env Ge (b # a # st) = Some (fbool (fle b a) # st)"
| "step env Le (b # a # st) = Some (fbool (fle a b) # st)"
| "step env Lt (b # a # st) = Some (fbool (flt a b) # st)"
| "step env Gt (b # a # st) = Some (fbool (flt b a) # st)"
| "step env And (b # a # st) = Some (fbool (truthy a \<and> truthy b) # st)"
| "step env Tern (c # b # a # st) = Some ((if truthy a then b else c) # st)"
| "step env t st = None"

fun run :: "fval list \<Rightarrow> token list \<Rightarrow> fval list \<Rightarrow> fval list option" where
  "run env [] st = Some st"
| "run env (t # ts) st = (case step env t st of None \<Rightarrow> None | Some st' \<Rightarrow> run env ts st')"

text \<open>The value of an expression at one sample position: exactly one value is left.\<close>

definition expr_px :: "fval list \<Rightarrow> token list \<Rightarrow> py_error + fval" where
  "expr_px env toks = (case run env toks [] of Some [v] \<Rightarrow> Inr v | _ \<Rightarrow> Inl VsError)"

text \<open>\<^verbatim>\<open>expr.replace('_', new)\<close>: every placeholder is replaced.\<close>

definition py_replace :: "token list \<Rightarrow> token list \<Rightarrow> token list" where
  "py_replace toks new = concat (map (\<lambda>t. if t = Hole then new else [t]) toks)"

section \<open>The mask of one band\<close>

text \<open>
  The closure \<^verbatim>\<open>_func\<close> of \<^verbatim>\<open>_make_mask\<close>, lines 225 to 234, over the
  reals; \<open>func_fl\<close> below is the same closure with every operation rounded.
\<close>

definition func :: "real \<Rightarrow> real \<Rightarrow> real \<Rightarrow> real \<Rightarrow> py_error + int" where
  "func thr overflow peak x =
     (let min_thr = thr - (overflow * peak) / 2;
          max_thr = thr + (overflow * peak) / 2
      in if min_thr \<le> x \<and> x \<le> max_thr then
           (case py_truediv (x - min_thr) (max_thr - min_thr) of
              Inl e \<Rightarrow> Inl e
            | Inr q \<Rightarrow> Inr (py_round \<bar>q * peak - peak\<bar>))
         else if x < min_thr then Inr (py_round peak)
         else if max_thr < x then Inr (py_round 0)
         else Inr (py_round x))"

text \<open>Lines 236 to 243: the two thresholds as expressions, and the three steps of the string.\<close>

definition min_thr_expr :: "real \<Rightarrow> real \<Rightarrow> real \<Rightarrow> token list" where
  "min_thr_expr thr overflow peak = [Num thr, Num overflow, Num peak, Mul, Num 2, Div, Sub]"

definition max_thr_expr :: "real \<Rightarrow> real \<Rightarrow> real \<Rightarrow> token list" where
  "max_thr_expr thr overflow peak = [Num thr, Num overflow, Num peak, Mul, Num 2, Div, Add]"

definition mask_expr :: "real \<Rightarrow> real \<Rightarrow> real \<Rightarrow> token list" where
  "mask_expr thr overflow peak =
     (let min_thr = min_thr_expr thr overflow peak;
          max_thr = max_thr_expr thr overflow peak;
          expr0 = [ClipX] @ min_thr @ [Ge, ClipX] @ max_thr @ [Le, And, ClipX] @ min_thr
                    @ [Sub] @ max_thr @ min_thr @ [Sub, Div, Num peak, Mul, Num peak, Sub, Abs,
                       Hole, Tern];
          expr1 = py_replace expr0 ([ClipX] @ min_thr @ [Lt, Num peak, Hole, Tern]);
          expr2 = py_replace expr1 ([ClipX] @ max_thr @ [Gt, Num 0, ClipX, Tern])
      in expr2)"

text \<open>
  Modelled from the spec: \<^verbatim>\<open>pick_px_op\<close> (vardefunc/util.py, not among the
  sources). The mask is computed per sample by the expression on a floating-point
  format and, rounded to an integer sample, by the function on an integer format.
\<close>

definition pick_px_op ::
  "bool \<Rightarrow> token list \<times> (real \<Rightarrow> py_error + int) \<Rightarrow> real \<Rightarrow> py_error + fval" where
  "pick_px_op use_expr operations x =
     (if use_expr then expr_px [Fin x] (fst operations)
      else (case snd operations x of Inl e \<Rightarrow> Inl e | Inr n \<Rightarrow> Inr (Fin (of_int n))))"

text \<open>\<^verbatim>\<open>_make_mask\<close> at the sample \<open>x\<close> of the reference clip.\<close>

definition make_mask :: "real \<Rightarrow> real \<Rightarrow> real \<Rightarrow> real \<Rightarrow> bool \<Rightarrow> py_error + fval" where
  "make_mask x thr overflow peak is_float =
     pick_px_op is_float (mask_expr thr overflow peak, func thr overflow peak) x"

text \<open>
  The transition value as the expression computes it, in float arithmetic:
  \<^verbatim>\<open>x min - max min - / peak * peak - abs\<close>.
\<close>

definition gradient :: "real \<Rightarrow> real \<Rightarrow> real \<Rightarrow> real \<Rightarrow> fval" where
  "gradient x lo hi peak =
     fabs (fsub (fmul (fdiv (Fin (x - lo)) (Fin (hi - lo))) (Fin peak)) (Fin peak))"

section \<open>Clips and the calls into the frame library\<close>

datatype color_family = GRAY | RGB | YUV | YCOCG | COMPAT

datatype sample_type = INTEGER | FLOAT

record vformat =
  format_id :: int
  color_family :: color_family
  sample_type :: sample_type
  bits_per_sample :: nat
  num_planes :: nat
  subsampling_w :: int
  subsampling_h :: int

text \<open>
  What \<^verbatim>\<open>graining\<close> reads of its input clip: the clip itself (a handle of the
  frame library, of any type \<open>'c\<close>), its size and its format, \<open>None\<close> for a clip
  of variable format.
\<close>

record 'c video_node =
  node :: 'c
  width :: int
  height :: int
  format :: "vformat option"

text \<open>The text burned into a mask: \<^verbatim>\<open>f'Threshold: {thr}'\<close>.\<close>

datatype label = ThresholdLabel real

text \<open>
  The calls \<^verbatim>\<open>graining\<close> and \<^verbatim>\<open>_make_grained\<close> make into VapourSynth,
  vsutil and the grainers, as parameters: \<^verbatim>\<open>core.std.Expr(clips, expr)\<close>,
  \<^verbatim>\<open>std.BlankClip\<close> (with or without a size), \<^verbatim>\<open>resize.Bilinear\<close> to a size
  or to a format, \<^verbatim>\<open>resize.Bicubic\<close>, \<^verbatim>\<open>std.Interleave\<close>,
  \<^verbatim>\<open>text.Text\<close>, \<^verbatim>\<open>text.FrameNum\<close>, \<^verbatim>\<open>std.MergeDiff\<close>,
  \<^verbatim>\<open>std.MakeDiff\<close>, vsutil's \<^verbatim>\<open>get_y\<close>, \<^verbatim>\<open>get_plane_size\<close> and
  \<^verbatim>\<open>join\<close>, and \<^verbatim>\<open>Grainer.grain\<close>. \<open>PxOp\<close> is
  \<^verbatim>\<open>pick_px_op(is_float, (expr, func))(clip)\<close>; it may fail, since it runs the
  function it is given (\<^verbatim>\<open>_func\<close>, which can raise). \<open>BlankClip\<close> is the
  call of line 158, which gives no size; \<open>BlankClipSized\<close> is the call of line 199,
  \<^verbatim>\<open>core.std.BlankClip(clip, ss_w, ss_h, color=neutral)\<close>, where the library
  decides whether it accepts the size, and \<open>grain\<close> may raise as any grainer may.
  The other calls are taken to return.
\<close>

record 'c core =
  Expr :: "'c list \<Rightarrow> token list \<Rightarrow> 'c"
  PxOp :: "bool \<Rightarrow> token list \<times> (real \<Rightarrow> py_error + int) \<Rightarrow> 'c \<Rightarrow> py_error + 'c"
  BlankClip :: "'c \<Rightarrow> (int \<times> int) option \<Rightarrow> real list \<Rightarrow> 'c"
  BlankClipSized :: "'c \<Rightarrow> int \<times> int \<Rightarrow> real list \<Rightarrow> py_error + 'c"
  Bilinear_size :: "'c \<Rightarrow> int \<times> int \<Rightarrow> 'c"
  Bilinear_format :: "'c \<Rightarrow> int \<Rightarrow> 'c"
  Bicubic :: "'c \<Rightarrow> int \<Rightarrow> int \<Rightarrow> real \<Rightarrow> real \<Rightarrow> 'c"
  Interleave :: "'c list \<Rightarrow> 'c"
  Text :: "'c \<Rightarrow> label \<Rightarrow> int \<Rightarrow> 'c"
  FrameNum :: "'c \<Rightarrow> int \<Rightarrow> 'c"
  MergeDiff :: "'c \<Rightarrow> 'c \<Rightarrow> 'c"
  MakeDiff :: "'c \<Rightarrow> 'c \<Rightarrow> 'c"
  get_y :: "'c \<Rightarrow> 'c"
  get_plane_size :: "'c \<Rightarrow> int \<Rightarrow> int \<times> int"
  join :: "'c list \<Rightarrow> 'c"
  grain :: "grainer \<Rightarrow> 'c \<Rightarrow> real \<times> real \<Rightarrow> py_error + 'c"

text \<open>
  One invocation of \<^verbatim>\<open>Grainer.grain\<close>: the grainer, the size of the blank clip
  it was given, and the strength. An invocation is recorded whether it returns or
  raises.
\<close>

type_synonym grain_call = "grainer \<times> (int \<times> int) \<times> (real \<times> real)"

section \<open>Graigasm: graining\<close>

text \<open>Line 149 and line 151.\<close>

definition peak_of :: "vformat \<Rightarrow> real" where
  "peak_of fmt =
     (if sample_type fmt = FLOAT then 1 else 2 ^ bits_per_sample fmt - 1)"

definition neutral_of :: "vformat \<Rightarrow> real list" where
  "neutral_of fmt =
     (if sample_type fmt = FLOAT then [1 / 2] @ py_repeat 0 (int (num_planes fmt) - 1)
      else py_repeat (2 ^ (bits_per_sample fmt - 1)) (int (num_planes fmt)))"

text \<open>Line 157: one mask per pair of \<^verbatim>\<open>zip(self.thrs, self.overflows)\<close>, in order.\<close>

definition make_mask_clip ::
  "'c core \<Rightarrow> 'c \<Rightarrow> real \<Rightarrow> real \<Rightarrow> real \<Rightarrow> bool \<Rightarrow> py_error + 'c" where
  "make_mask_clip core clip thr overflow peak is_float =
     PxOp core is_float (mask_expr thr overflow peak, func thr overflow peak) clip"

fun build_masks ::
  "'c core \<Rightarrow> 'c \<Rightarrow> (real \<times> real) list \<Rightarrow> real \<Rightarrow> bool \<Rightarrow> py_error + 'c list" where
  "build_masks core pref [] peak is_float = Inr []"
| "build_masks core pref ((thr, ovf) # rest) peak is_float =
     (case make_mask_clip core pref thr ovf peak is_float of
        Inl e \<Rightarrow> Inl e
      | Inr m \<Rightarrow>
          (case build_masks core pref rest peak is_float of
             Inl e \<Rightarrow> Inl e
           | Inr ms \<Rightarrow> Inr (m # ms)))"

text \<open>Lines 158 and 159, with the expression \<^verbatim>\<open>'x y -'\<close>.\<close>

definition sub_expr :: "token list" where
  "sub_expr = [ClipX, ClipY, Sub]"

definition exclusive_masks :: "'c core \<Rightarrow> 'c \<Rightarrow> 'c list \<Rightarrow> 'c list" where
  "exclusive_masks core blank cum =
     (let masks = [blank] @ cum
      in map (\<lambda>i. Expr core [masks ! i, masks ! (i - 1)] sub_expr) [1..<length masks])"

text \<open>Lines 162 to 167: the masks of a clip with three planes.\<close>

definition chroma_masks :: "'c core \<Rightarrow> 'c video_node \<Rightarrow> vformat \<Rightarrow> 'c list \<Rightarrow> 'c list" where
  "chroma_masks core clip fmt masks =
     (if num_planes fmt = 3 then
        (if sample_type fmt = FLOAT then
           (let masks_chroma =
                  map (\<lambda>mask. Bilinear_size core mask (get_plane_size core (node clip) 1)) masks
            in map (\<lambda>(mask, mask_chroma). join core [mask, mask_chroma, mask_chroma])
                 (zip masks masks_chroma))
         else map (\<lambda>mask. Bilinear_format core (join core (py_repeat mask 3)) (format_id fmt))
                masks)
      else masks)"

text \<open>Lines 169 to 173.\<close>

definition show_masks_clip :: "'c core \<Rightarrow> real list \<Rightarrow> 'c list \<Rightarrow> 'c" where
  "show_masks_clip core ths masks =
     Interleave core
       (map (\<lambda>(thr, mask). FrameNum core (Text core mask (ThresholdLabel thr) 7) 9)
          (zip ths masks))"

text \<open>
  \<^verbatim>\<open>_make_grained\<close>. It returns its clip, or the error it raised, together with
  the invocations of \<^verbatim>\<open>Grainer.grain\<close> it made.
\<close>

definition make_grained ::
  "'c core \<Rightarrow> 'c video_node \<Rightarrow> real \<times> real \<Rightarrow> real \<Rightarrow> real \<Rightarrow> grainer \<Rightarrow> real list \<Rightarrow> int \<Rightarrow>
   (py_error + 'c) \<times> grain_call list" where
  "make_grained core clip strength sz sharp grainer neutral m =
     (case ss_dims (width clip) (height clip) sz m of
        Inl e \<Rightarrow> (Inl e, [])
      | Inr (ss_w, ss_h) \<Rightarrow>
          (let b = sharp / (- 50) + 1;
               c = (1 - b) / 2
           in case BlankClipSized core (node clip) (ss_w, ss_h) neutral of
                Inl e \<Rightarrow> (Inl e, [])
              | Inr blank \<Rightarrow>
                  (case grain core grainer blank strength of
                     Inl e \<Rightarrow> (Inl e, [(grainer, (ss_w, ss_h), strength)])
                   | Inr noisy \<Rightarrow>
                       (let grained = Bicubic core noisy (width clip) (height clip) b c
                        in (Inr (MakeDiff core (node clip) grained),
                            [(grainer, (ss_w, ss_h), strength)])))))"

text \<open>
  Lines 176 and 177: the list comprehension over
  \<^verbatim>\<open>zip(self.strengths, self.sizes, self.sharps, self.grainers)\<close>; the first error
  ends it.
\<close>

fun make_graineds ::
  "'c core \<Rightarrow> 'c video_node \<Rightarrow> real list \<Rightarrow> int \<Rightarrow>
   ((real \<times> real) \<times> real \<times> real \<times> grainer) list \<Rightarrow> (py_error + 'c list) \<times> grain_call list" where
  "make_graineds core clip neutral m [] = (Inr [], [])"
| "make_graineds core clip neutral m ((strength, sz, sharp, grainer) # rest) =
     (case make_grained core clip strength sz sharp grainer neutral m of
        (Inl e, calls) \<Rightarrow> (Inl e, calls)
      | (Inr g, calls) \<Rightarrow>
          (case make_graineds core clip neutral m rest of
             (Inl e, calls') \<Rightarrow> (Inl e, calls @ calls')
           | (Inr gs, calls') \<Rightarrow> (Inr (g # gs), calls @ calls')))"

text \<open>Lines 179 and 180, with the expression \<^verbatim>\<open>'x z {peak} / * y 1 z {peak} / - * +'\<close>.\<close>

definition blend_expr :: "real \<Rightarrow> token list" where
  "blend_expr peak =
     [ClipX, ClipZ, Num peak, Div, Mul, ClipY, Num 1, ClipZ, Num peak, Div, Sub, Mul, Add]"

definition clips_adg :: "'c core \<Rightarrow> 'c \<Rightarrow> real \<Rightarrow> 'c list \<Rightarrow> 'c list \<Rightarrow> 'c list" where
  "clips_adg core clip peak graineds masks =
     map (\<lambda>(grained, mask). Expr core [grained, clip, mask] (blend_expr peak))
       (zip graineds masks)"

text \<open>Lines 183 to 185: the loop over \<^verbatim>\<open>clips_adg\<close>, \<open>out\<close> being its variable.\<close>

fun fold_out :: "'c core \<Rightarrow> 'c \<Rightarrow> 'c \<Rightarrow> 'c list \<Rightarrow> 'c" where
  "fold_out core clip out [] = out"
| "fold_out core clip out (clip_adg # rest) =
     fold_out core clip (MergeDiff core clip_adg (MakeDiff core clip out)) rest"

text \<open>
  \<^verbatim>\<open>graining\<close>: the clip it returns or the error it raises, and the invocations of
  \<^verbatim>\<open>Grainer.grain\<close> made on the way.
\<close>

definition graining ::
  "'c core \<Rightarrow> grainer graigasm \<Rightarrow> 'c video_node \<Rightarrow> 'c option \<Rightarrow> bool \<Rightarrow>
   (py_error + 'c) \<times> grain_call list" where
  "graining core g clip prefilter show_masks =
     (case format clip of
        None \<Rightarrow> (Inl FormatError, [])
      | Some fmt \<Rightarrow>
          if color_family fmt \<noteq> YUV \<and> color_family fmt \<noteq> GRAY then (Inl FormatError, [])
          else
            (let is_float = (sample_type fmt = FLOAT);
                 peak = peak_of fmt;
                 neutral = neutral_of fmt;
                 pref = (case prefilter of Some p \<Rightarrow> p | None \<Rightarrow> get_y core (node clip))
             in case get_mod (subsampling_w fmt, subsampling_h fmt) of
                  Inl e \<Rightarrow> (Inl e, [])
                | Inr m \<Rightarrow>
                    (case build_masks core pref (zip (thrs g) (overflows g)) peak is_float of
                       Inl e \<Rightarrow> (Inl e, [])
                     | Inr cum \<Rightarrow>
                         (let masks = exclusive_masks core (BlankClip core pref None [0]) cum;
                              masks = chroma_masks core clip fmt masks
                          in if show_masks then (Inr (show_masks_clip core (thrs g) masks), [])
                             else
                               (case make_graineds core clip neutral m
                                       (zip (strengths g) (zip (sizes g)
                                          (zip (sharps g) (grainers g)))) of
                                  (Inl e, calls) \<Rightarrow> (Inl e, calls)
                                | (Inr graineds, calls) \<Rightarrow>
                                    (Inr (fold_out core (node clip) (node clip)
                                            (clips_adg core (node clip) peak graineds masks)),
                                     calls))))))"

text \<open>
  A frame library of clips that are one sample wide, float format: an expression is
  evaluated, a difference is a difference, a blank clip holds its first colour and is
  refused when a size is given that is not positive, a grainer adds nothing, and the
  calls on geometry and text leave the sample alone.
\<close>

definition sample_core :: "real core" where
  "sample_core =
     \<lparr>Expr = (\<lambda>ins toks. case expr_px (map Fin ins) toks of Inr (Fin v) \<Rightarrow> v | _ \<Rightarrow> 0),
      PxOp = (\<lambda>use_expr ops x.
                case pick_px_op use_expr ops x of
                  Inl e \<Rightarrow> Inl e
                | Inr (Fin v) \<Rightarrow> Inr v
                | Inr _ \<Rightarrow> Inl VsError),
      BlankClip = (\<lambda>c dims color. case color of [] \<Rightarrow> 0 | v # _ \<Rightarrow> v),
      BlankClipSized = (\<lambda>c dims color.
                if fst dims \<le> 0 \<or> snd dims \<le> 0 then Inl VsError
                else Inr (case color of [] \<Rightarrow> 0 | v # _ \<Rightarrow> v)),
      Bilinear_size = (\<lambda>c dims. c),
      Bilinear_format = (\<lambda>c f. c),
      Bicubic = (\<lambda>c w h b c'. c),
      Interleave = (\<lambda>cs. case cs of [] \<Rightarrow> 0 | c # _ \<Rightarrow> c),
      Text = (\<lambda>c l a. c),
      FrameNum = (\<lambda>c a. c),
      MergeDiff = (\<lambda>a b. a + b),
      MakeDiff = (\<lambda>a b. a - b),
      get_y = (\<lambda>c. c),
      get_plane_size = (\<lambda>c p. (1, 1)),
      join = (\<lambda>cs. case cs of [] \<Rightarrow> 0 | c # _ \<Rightarrow> c),
      grain = (\<lambda>g c s. Inr c)\<rparr>"

section \<open>A concrete clip and two bands\<close>

text \<open>
  An 8-bit YUV 4:2:0 clip of 1920 by 1080 whose sample is 100, and two bands, the second
  with a grain size larger than the clip.
\<close>

definition yuv420p8 :: vformat where
  "yuv420p8 = \<lparr>format_id = 1, color_family = YUV, sample_type = INTEGER, bits_per_sample = 8, num_planes = 3, subsampling_w = 1, subsampling_h = 1\<rparr>"

definition two_bands :: "grainer graigasm" where
  "two_bands = \<lparr>thrs = [64, 128], strengths = [(1, 0), (2, 0)], sizes = [1, 5000], sharps = [50, 60], overflows = [1 / 2, 1 / 2], grainers = [default_grainer, PlaceboGrain []]\<rparr>"

definition flat_clip :: "real video_node" where
  "flat_clip = \<lparr>node = 100, width = 1920, height = 1080, format = Some yuv420p8\<rparr>"

section \<open>Floating-point arithmetic\<close>

text \<open>
  Python computes \<^verbatim>\<open>_func\<close> on doubles and the expression evaluator computes on
  singles: every arithmetic operation returns the float nearest to the exact result.
  The rounding is a parameter \<open>rnd\<close> of the definitions below. \<open>fl p\<close> is rounding
  to \<open>p\<close> significant bits, to nearest and ties to even, with no bound on the
  exponent (no overflow and no subnormal numbers): \<open>fl 53\<close> for a double,
  \<open>fl 24\<close> for a single.
\<close>

definition fl :: "nat \<Rightarrow> real \<Rightarrow> real" where
  "fl p x =
     (if x = 0 then 0
      else (let e = \<lfloor>log 2 \<bar>x\<bar>\<rfloor>; u = 2 powr of_int (e - int p + 1)
            in of_int (py_round (x / u)) * u))"

text \<open>
  \<^verbatim>\<open>_func\<close>, lines 225 to 234, each operation on floats rounded. \<open>peak\<close> is an
  int on the formats that run \<^verbatim>\<open>_func\<close> and \<open>x\<close> an integer sample: both are
  converted to a float without loss.
\<close>

definition func_fl :: "(real \<Rightarrow> real) \<Rightarrow> real \<Rightarrow> real \<Rightarrow> real \<Rightarrow> real \<Rightarrow> py_error + int" where
  "func_fl rnd thr overflow peak x =
     (let min_thr = rnd (thr - rnd (rnd (overflow * peak) / 2));
          max_thr = rnd (thr + rnd (rnd (overflow * peak) / 2))
      in if min_thr \<le> x \<and> x \<le> max_thr then
           (case py_truediv (rnd (x - min_thr)) (rnd (max_thr - min_thr)) of
              Inl e \<Rightarrow> Inl e
            | Inr q \<Rightarrow> Inr (py_round \<bar>rnd (rnd (rnd q * peak) - peak)\<bar>))
         else if x < min_thr then Inr (py_round peak)
         else if max_thr < x then Inr (py_round 0)
         else Inr (py_round x))"

text \<open>
  The expression evaluator in float arithmetic: a constant is read as a float, and the
  result of an addition, subtraction, multiplication or division is rounded. A
  comparison, a choice and an absolute value are exact.
\<close>

fun fround :: "(real \<Rightarrow> real) \<Rightarrow> fval \<Rightarrow> fval" where
  "fround rnd (Fin v) = Fin (rnd v)"
| "fround rnd a = a"

fun rounded :: "token \<Rightarrow> bool" where
  "rounded (Num c) = True"
| "rounded Add = True"
| "rounded Sub = True"
| "rounded Mul = True"
| "rounded Div = True"
| "rounded t = False"

definition step_fl :: "(real \<Rightarrow> real) \<Rightarrow> fval list \<Rightarrow> token \<Rightarrow> fval list \<Rightarrow> fval list option" where
  "step_fl rnd env t st =
     (case step env t st of
        Some (v # st') \<Rightarrow> Some ((if rounded t then fround rnd v else v) # st')
      | r \<Rightarrow> r)"

fun run_fl :: "(real \<Rightarrow> real) \<Rightarrow> fval list \<Rightarrow> token list \<Rightarrow> fval list \<Rightarrow> fval list option" where
  "run_fl rnd env [] st = Some st"
| "run_fl rnd env (t # ts) st =
     (case step_fl rnd env t st of None \<Rightarrow> None | Some st' \<Rightarrow> run_fl rnd env ts st')"

definition expr_px_fl :: "(real \<Rightarrow> real) \<Rightarrow> fval list \<Rightarrow> token list \<Rightarrow> py_error + fval" where
  "expr_px_fl rnd env toks =
     (case run_fl rnd env toks [] of Some [v] \<Rightarrow> Inr v | _ \<Rightarrow> Inl VsError)"

text \<open>
  Modelled from the spec: \<^verbatim>\<open>pick_px_op\<close> (vardefunc/util.py, not among the
  sources), with the expression evaluated in float arithmetic.
\<close>

definition pick_px_op_fl ::
  "(real \<Rightarrow> real) \<Rightarrow> bool \<Rightarrow> token list \<times> (real \<Rightarrow> py_error + int) \<Rightarrow> real \<Rightarrow> py_error + fval" where
  "pick_px_op_fl rnd use_expr operations x =
     (if use_expr then expr_px_fl rnd [Fin x] (fst operations)
      else (case snd operations x of Inl e \<Rightarrow> Inl e | Inr n \<Rightarrow> Inr (Fin (of_int n))))"

text \<open>
  \<^verbatim>\<open>_make_mask\<close> at the sample \<open>x\<close> of the reference clip, \<^verbatim>\<open>_func\<close> in
  the arithmetic \<open>rnd64\<close> and the expression in the arithmetic \<open>rnd32\<close>.
\<close>

definition make_mask_fl ::
  "(real \<Rightarrow> real) \<Rightarrow> (real \<Rightarrow> real) \<Rightarrow> real \<Rightarrow> real \<Rightarrow> real \<Rightarrow> real \<Rightarrow> bool \<Rightarrow> py_error + fval" where
  "make_mask_fl rnd64 rnd32 x thr overflow peak is_float =
     pick_px_op_fl rnd32 is_float (mask_expr thr overflow peak, func_fl rnd64 thr overflow peak) x"

text \<open>
  The mask in closed form. \<open>rnd\<close> rounds the result of an operation and \<open>cst\<close>
  reads a constant: the expression reads the text of \<open>thr\<close>, \<open>overflow\<close>,
  \<open>peak\<close> and \<open>2\<close> as floats of its own, \<^verbatim>\<open>_func\<close> has them as they are.
  \<open>mask_defined\<close>: the divisor of the zone is not zero for a sample inside the zone.
\<close>

definition min_thr_value :: "(real \<Rightarrow> real) \<Rightarrow> (real \<Rightarrow> real) \<Rightarrow> real \<Rightarrow> real \<Rightarrow> real \<Rightarrow> real" where
  "min_thr_value rnd cst thr overflow peak =
     rnd (cst thr - rnd (rnd (cst overflow * cst peak) / cst 2))"

definition max_thr_value :: "(real \<Rightarrow> real) \<Rightarrow> (real \<Rightarrow> real) \<Rightarrow> real \<Rightarrow> real \<Rightarrow> real \<Rightarrow> real" where
  "max_thr_value rnd cst thr overflow peak =
     rnd (cst thr + rnd (rnd (cst overflow * cst peak) / cst 2))"

definition mask_value :: "(real \<Rightarrow> real) \<Rightarrow> (real \<Rightarrow> real) \<Rightarrow> real \<Rightarrow> real \<Rightarrow> real \<Rightarrow> real \<Rightarrow> real" where
  "mask_value rnd cst thr overflow peak x =
     (let min_thr = min_thr_value rnd cst thr overflow peak;
          max_thr = max_thr_value rnd cst thr overflow peak
      in if min_thr \<le> x \<and> x \<le> max_thr then
           \<bar>rnd (rnd (rnd (rnd (x - min_thr) / rnd (max_thr - min_thr)) * cst peak) - cst peak)\<bar>
         else if x < min_thr then cst peak
         else cst 0)"

definition mask_defined :: "(real \<Rightarrow> real) \<Rightarrow> (real \<Rightarrow> real) \<Rightarrow> real \<Rightarrow> real \<Rightarrow> real \<Rightarrow> real \<Rightarrow> bool" where
  "mask_defined rnd cst thr overflow peak x =
     (cst 2 \<noteq> 0 \<and>
      (min_thr_value rnd cst thr overflow peak \<le> x \<and> x \<le> max_thr_value rnd cst thr overflow peak \<longrightarrow>
       rnd (max_thr_value rnd cst thr overflow peak - min_thr_value rnd cst thr overflow peak) \<noteq> 0))"

text \<open>
  The expression \<^verbatim>\<open>'x z {peak} / * y 1 z {peak} / - * +'\<close> of line 179 in closed
  form, each operation rounded and each constant read as a float.
\<close>

definition blend_value :: "(real \<Rightarrow> real) \<Rightarrow> real \<Rightarrow> real \<Rightarrow> real \<Rightarrow> real \<Rightarrow> real" where
  "blend_value rnd peak x y z =
     rnd (rnd (x * rnd (z / rnd peak)) + rnd (y * rnd (rnd 1 - rnd (z / rnd peak))))"

section \<open>What the frame library stores and refuses\<close>

text \<open>
  A sample of an integer format is an integer from 0 to \<open>peak\<close>: the result of an
  expression, or of a difference, is rounded to the nearest integer, ties to even, and
  kept within these bounds. A sample of a float format is stored as it is.
\<close>

definition store_int :: "real \<Rightarrow> real \<Rightarrow> real" where
  "store_int peak v = of_int (max 0 (min \<lfloor>peak\<rfloor> (py_round v)))"

definition store_of :: "vformat \<Rightarrow> real \<Rightarrow> real" where
  "store_of fmt v = (if sample_type fmt = FLOAT then v else store_int (peak_of fmt) v)"

text \<open>
  The reading of \<^verbatim>\<open>std.Expr\<close> that the statements on sample values rest on: at a
  sample position, of value \<open>px c\<close> in each clip \<open>c\<close>, the clip \<open>Expr clips expr\<close>
  holds the value of the expression on the values of its clips, computed in the float
  arithmetic \<open>rnd\<close> and stored in the format \<open>fmt\<close>, whenever that value is a
  finite number.
\<close>

definition expr_stores :: "(real \<Rightarrow> real) \<Rightarrow> vformat \<Rightarrow> ('c \<Rightarrow> real) \<Rightarrow> 'c core \<Rightarrow> bool" where
  "expr_stores rnd fmt px core =
     (\<forall>ins toks v. expr_px_fl rnd (map (\<lambda>c. Fin (px c)) ins) toks = Inr (Fin v) \<longrightarrow>
                    px (Expr core ins toks) = store_of fmt v)"


text \<open>
  A frame library of clips that are one sample wide, of the format \<open>fmt\<close>: an
  expression is evaluated in the arithmetic \<open>rnd\<close> and its result stored in the
  format, \<^verbatim>\<open>MakeDiff\<close> and \<^verbatim>\<open>MergeDiff\<close> are the difference and the sum
  around the middle of the range on an integer format, stored in the format, a blank
  clip holds its first colour and is refused when a size is given that is not positive,
  a grainer adds nothing, and the calls on geometry and text leave the sample alone.
\<close>

definition lib_core :: "(real \<Rightarrow> real) \<Rightarrow> vformat \<Rightarrow> real core" where
  "lib_core rnd fmt =
     \<lparr>Expr = (\<lambda>ins toks.
                case expr_px_fl rnd (map Fin ins) toks of
                  Inr (Fin v) \<Rightarrow> store_of fmt v
                | _ \<Rightarrow> 0),
      PxOp = (\<lambda>use_expr ops x.
                case pick_px_op_fl rnd use_expr ops x of
                  Inl e \<Rightarrow> Inl e
                | Inr (Fin v) \<Rightarrow> Inr v
                | Inr _ \<Rightarrow> Inl VsError),
      BlankClip = (\<lambda>c dims color. case color of [] \<Rightarrow> 0 | v # _ \<Rightarrow> v),
      BlankClipSized = (\<lambda>c dims color.
                if fst dims \<le> 0 \<or> snd dims \<le> 0 then Inl VsError
                else Inr (case color of [] \<Rightarrow> 0 | v # _ \<Rightarrow> v)),
      Bilinear_size = (\<lambda>c dims. c),
      Bilinear_format = (\<lambda>c f. c),
      Bicubic = (\<lambda>c w h b c'. c),
      Interleave = (\<lambda>cs. case cs of [] \<Rightarrow> 0 | c # _ \<Rightarrow> c),
      Text = (\<lambda>c l a. c),
      FrameNum = (\<lambda>c a. c),
      MergeDiff = (\<lambda>a b.
                if sample_type fmt = FLOAT then rnd (a + b)
                else store_int (peak_of fmt) (a + b - 2 ^ (bits_per_sample fmt - 1))),
      MakeDiff = (\<lambda>a b.
                if sample_type fmt = FLOAT then rnd (a - b)
                else store_int (peak_of fmt) (a - b + 2 ^ (bits_per_sample fmt - 1))),
      get_y = (\<lambda>c. c),
      get_plane_size = (\<lambda>c p. (1, 1)),
      join = (\<lambda>cs. case cs of [] \<Rightarrow> 0 | c # _ \<Rightarrow> c),
      grain = (\<lambda>g c s. Inr c)\<rparr>"

text \<open>
  An 8-bit gray clip of 1920 by 1080 whose sample is 100, two bands whose grain sizes
  fit the clip, and the same two bands with a second grain size larger than the clip.
\<close>

definition gray8 :: vformat where
  "gray8 = \<lparr>format_id = 2, color_family = GRAY, sample_type = INTEGER, bits_per_sample = 8, num_planes = 1, subsampling_w = 0, subsampling_h = 0\<rparr>"

definition fine_bands :: "grainer graigasm" where
  "fine_bands = \<lparr>thrs = [257 / 4, 513 / 4], strengths = [(1, 0), (2, 0)], sizes = [1, 2], sharps = [50, 60], overflows = [1 / 2, 1 / 2], grainers = [default_grainer, PlaceboGrain []]\<rparr>"

definition coarse_bands :: "grainer graigasm" where
  "coarse_bands = fine_bands\<lparr>sizes := [1, 5000]\<rparr>"

definition gray_clip :: "real video_node" where
  "gray_clip = \<lparr>node = 100, width = 1920, height = 1080, format = Some gray8\<rparr>"

section \<open>Properties of the construction\<close>

lemma py_repeat_length: "length (py_repeat x n) = nat n"
  by (simp add: py_repeat_def)

lemma py_repeat_diff: "py_repeat x (int n - int k) = replicate (n - k) x"
  by (simp add: py_repeat_def nat_diff_distrib')

lemma length_check_three:
  "length_check n [a, b, c] \<longleftrightarrow> a \<noteq> n \<and> b \<noteq> n \<and> c \<noteq> n"
  by (simp add: length_check_def)

text \<open>
  The constructor raises ValueError exactly when each of the three lists differs in
  length from \<open>thrs\<close>; one list of the right length is enough to pass.
\<close>

lemma init_ValueError_iff:
  "init ths strs szs shs oa ga = Inl ValueError \<longleftrightarrow>
     length strs \<noteq> length ths \<and> length szs \<noteq> length ths \<and> length shs \<noteq> length ths"
  by (auto simp: init_def length_check_def init_overflows_def init_grainers_def
      py_truediv_def pad_last_def Let_def
      split: sum.splits overflows_arg.splits grainers_arg.splits if_splits)

text \<open>
  C4. The claim: construction raises ValueError whenever any one of strengths, sizes
  or sharps differs in length from thrs. The code at one band with two sharps: the
  check passes (strengths and sizes have the length of thrs) and the object is built.
\<close>

theorem init_accepts_unequal_lengths:
  "init [1 / 2] [(1, 1)] [1] [50, 60] OvfNone (OneGrainer default_grainer) =
     Inr \<lparr>thrs = [1 / 2], strengths = [(1, 1)], sizes = [1], sharps = [50, 60],
          overflows = [1], grainers = [default_grainer]\<rparr>"
  by (simp add: init_def length_check_def init_overflows_def init_grainers_def
      py_truediv_def pad_last_def py_repeat_def)

text \<open>
  C10. With the four per-band sequences empty and overflows omitted, the length check
  does not raise (no list differs in length from the empty thrs) and construction
  fails with ZeroDivisionError, from the default \<^verbatim>\<open>1/length\<close>.
\<close>

theorem init_empty_ZeroDivisionError:
  "length_check (length ([] :: real list))
     [length ([] :: (real \<times> real) list), length ([] :: real list),
      length ([] :: real list)] = False \<and>
   init [] [] [] [] OvfNone (ga :: grainer grainers_arg) = Inl ZeroDivisionError"
  by (simp add: init_def length_check_def init_overflows_def py_truediv_def)

text \<open>
  C7, as the claim states it, fails on an empty sequence, which is shorter than thrs
  and has no last element: \<^verbatim>\<open>overflows[-1]\<close> raises IndexError.
\<close>

theorem init_empty_overflows_IndexError:
  "init [1 / 2, 3 / 4] [(1, 1), (2, 2)] [1, 1] [50, 50] (OvfSeq [])
     (OneGrainer default_grainer) = Inl IndexError"
  by (simp add: init_def length_check_def init_overflows_def pad_last_def)

text \<open>
  C7, amended. When the length check passes: a float given for overflows, or a single
  Grainer, is repeated once per band; a non-empty sequence is extended with copies of
  its last element up to the number of bands (and left as it is when it is not
  shorter); omitted overflows become \<open>1/len(thrs)\<close> once per band, for a non-empty
  thrs.
\<close>

theorem init_broadcast:
  assumes "\<not> length_check (length ths) [length strs, length szs, length shs]"
    and "oa = OvfNone \<longrightarrow> ths \<noteq> []"
    and "\<forall>vs. oa = OvfSeq vs \<longrightarrow> vs \<noteq> []"
    and "\<forall>gs. ga = GrainerSeq gs \<longrightarrow> gs \<noteq> []"
  shows "init ths strs szs shs oa ga =
     Inr \<lparr>thrs = ths, strengths = strs, sizes = szs, sharps = shs,
          overflows =
            (case oa of
               OvfNone \<Rightarrow> replicate (length ths) (1 / real (length ths))
             | OvfFloat v \<Rightarrow> replicate (length ths) v
             | OvfSeq vs \<Rightarrow> vs @ replicate (length ths - length vs) (last vs)),
          grainers =
            (case ga of
               OneGrainer g \<Rightarrow> replicate (length ths) g
             | GrainerSeq gs \<Rightarrow> gs @ replicate (length ths - length gs) (last gs))\<rparr>"
proof -
  let ?n = "length ths"
  have ovf: "init_overflows ?n oa =
      Inr (case oa of
             OvfNone \<Rightarrow> replicate ?n (1 / real ?n)
           | OvfFloat v \<Rightarrow> replicate ?n v
           | OvfSeq vs \<Rightarrow> vs @ replicate (?n - length vs) (last vs))"
  proof (cases oa)
    case OvfNone
    with assms(2) have "0 < ?n" by simp
    then have "py_repeat (1 / real ?n) (int ?n - 1) = replicate (?n - 1) (1 / real ?n)"
      using py_repeat_diff [of "1 / real ?n" ?n 1] by simp
    moreover have "(1 / real ?n) # replicate (?n - 1) (1 / real ?n) = replicate ?n (1 / real ?n)"
      using \<open>0 < ?n\<close> by (cases ?n) simp_all
    ultimately show ?thesis
      using OvfNone \<open>0 < ?n\<close>
      by (simp add: init_overflows_def py_truediv_def pad_last_def)
  next
    case (OvfFloat v)
    then show ?thesis by (simp add: init_overflows_def py_repeat_def)
  next
    case (OvfSeq vs)
    with assms(3) have "vs \<noteq> []" by simp
    then show ?thesis
      using OvfSeq by (simp add: init_overflows_def pad_last_def py_repeat_diff)
  qed
  have gr: "init_grainers ?n ga =
      Inr (case ga of
             OneGrainer g \<Rightarrow> replicate ?n g
           | GrainerSeq gs \<Rightarrow> gs @ replicate (?n - length gs) (last gs))"
  proof (cases ga)
    case (OneGrainer g)
    then show ?thesis by (simp add: init_grainers_def py_repeat_def)
  next
    case (GrainerSeq gs)
    with assms(4) have "gs \<noteq> []" by simp
    then show ?thesis
      using GrainerSeq by (simp add: init_grainers_def pad_last_def py_repeat_diff)
  qed
  show ?thesis
    using assms(1) by (simp add: init_def ovf gr Let_def)
qed

theorem init_broadcast_witness:
  "\<not> length_check (length [1 / 4, 1 / 2, 3 / 4 :: real]) [length [(1, 1), (2, 2), (3, 3) :: real \<times> real], length [1, 1, 1 :: real], length [50, 50, 50 :: real]]
   \<and> init [1 / 4, 1 / 2, 3 / 4] [(1, 1), (2, 2), (3, 3)] [1, 1, 1] [50, 50, 50]
       (OvfSeq [1 / 10, 1 / 5]) (GrainerSeq [default_grainer, PlaceboGrain []]) =
     Inr \<lparr>thrs = [1 / 4, 1 / 2, 3 / 4], strengths = [(1, 1), (2, 2), (3, 3)],
          sizes = [1, 1, 1], sharps = [50, 50, 50],
          overflows = [1 / 10, 1 / 5, 1 / 5],
          grainers = [default_grainer, PlaceboGrain [], PlaceboGrain []]\<rparr>"
  using init_broadcast [of "[1 / 4, 1 / 2, 3 / 4]" "[(1, 1), (2, 2), (3, 3)]" "[1, 1, 1]"
      "[50, 50, 50]" "OvfSeq [1 / 10, 1 / 5]" "GrainerSeq [default_grainer, PlaceboGrain []]"]
  by (simp add: length_check_def)

section \<open>Properties of the mask of one band\<close>

lemma run_append:
  "run env (a @ b) st = (case run env a st of None \<Rightarrow> None | Some st' \<Rightarrow> run env b st')"
  by (induction a arbitrary: st) (auto split: option.splits)

lemma fsub_Fin: "fsub (Fin a) (Fin b) = Fin (a - b)"
  by (simp add: fsub_def)

lemma run_min_thr:
  "run env (min_thr_expr thr ovf peak @ rest) st = run env rest (Fin (thr - ovf * peak / 2) # st)"
  by (simp add: min_thr_expr_def fsub_def)

lemma run_max_thr:
  "run env (max_thr_expr thr ovf peak @ rest) st = run env rest (Fin (thr + ovf * peak / 2) # st)"
  by (simp add: max_thr_expr_def)

lemma Hole_notin_thr:
  "Hole \<notin> set (min_thr_expr thr ovf peak)" "Hole \<notin> set (max_thr_expr thr ovf peak)"
  by (simp_all add: min_thr_expr_def max_thr_expr_def)

lemma py_replace_simps:
  "py_replace [] new = []"
  "py_replace (Hole # ts) new = new @ py_replace ts new"
  "t \<noteq> Hole \<Longrightarrow> py_replace (t # ts) new = t # py_replace ts new"
  "py_replace (a @ b) new = py_replace a new @ py_replace b new"
  by (simp_all add: py_replace_def)

lemma py_replace_id: "Hole \<notin> set ts \<Longrightarrow> py_replace ts new = ts"
  by (induction ts) (auto simp: py_replace_def)

lemma mask_expr_unfold:
  "mask_expr thr ovf peak =
     [ClipX] @ min_thr_expr thr ovf peak @ [Ge, ClipX] @ max_thr_expr thr ovf peak
       @ [Le, And, ClipX] @ min_thr_expr thr ovf peak @ [Sub] @ max_thr_expr thr ovf peak
       @ min_thr_expr thr ovf peak @ [Sub, Div, Num peak, Mul, Num peak, Sub, Abs]
       @ [ClipX] @ min_thr_expr thr ovf peak @ [Lt, Num peak]
       @ [ClipX] @ max_thr_expr thr ovf peak @ [Gt, Num 0, ClipX, Tern, Tern, Tern]"
  by (simp add: mask_expr_def Let_def py_replace_simps py_replace_id Hole_notin_thr)

lemma mask_expr_run:
  "run [Fin x] (mask_expr thr ovf peak) [] = Some [
     (if thr - ovf * peak / 2 \<le> x \<and> x \<le> thr + ovf * peak / 2
      then gradient x (thr - ovf * peak / 2) (thr + ovf * peak / 2) peak
      else if x < thr - ovf * peak / 2 then Fin peak
      else if thr + ovf * peak / 2 < x then Fin 0 else Fin x)]"
  unfolding mask_expr_unfold gradient_def
  by (simp add: run_min_thr run_max_thr fsub_Fin fbool_def truthy_def flt_def del: fdiv.simps fmul.simps fabs.simps)

lemma gradient_Fin:
  "hi \<noteq> lo \<Longrightarrow> gradient x lo hi peak = Fin \<bar>(x - lo) / (hi - lo) * peak - peak\<bar>"
  by (simp add: gradient_def fsub_Fin)

lemma gradient_NaN: "gradient lo lo lo peak = NaN"
  by (simp add: gradient_def finf_def fsub_def)

lemma make_mask_float:
  "make_mask x thr ovf peak True =
     Inr (if thr - ovf * peak / 2 \<le> x \<and> x \<le> thr + ovf * peak / 2
          then gradient x (thr - ovf * peak / 2) (thr + ovf * peak / 2) peak
          else if x < thr - ovf * peak / 2 then Fin peak
          else if thr + ovf * peak / 2 < x then Fin 0 else Fin x)"
  by (simp add: make_mask_def pick_px_op_def expr_px_def mask_expr_run)

lemma py_round_0: "py_round 0 = 0"
  by (simp add: py_round_def)

text \<open>
  With \<open>overflow = 0\<close>, away from the threshold, the mask is the hard step.
\<close>

lemma make_mask_hard_step:
  assumes "x \<noteq> thr"
  shows "make_mask x thr 0 peak is_float =
     Inr (Fin (if x < thr then (if is_float then peak else of_int (py_round peak)) else 0))"
proof (cases is_float)
  case True
  with assms show ?thesis by (auto simp: make_mask_float)
next
  case False
  with assms show ?thesis
    by (auto simp: make_mask_def pick_px_op_def func_def py_round_0 Let_def)
qed

text \<open>On the one-sample clips, the mask clip of a band is \<open>make_mask\<close>.\<close>

lemma make_mask_clip_sample:
  "make_mask_clip sample_core x thr overflow peak is_float =
     (case make_mask x thr overflow peak is_float of
        Inl e \<Rightarrow> Inl e
      | Inr (Fin v) \<Rightarrow> Inr v
      | Inr _ \<Rightarrow> Inl VsError)"
  by (simp add: make_mask_clip_def make_mask_def sample_core_def)

text \<open>
  C5. The claim: with \<open>overflow = 0\<close> the mask computation is total, and the sample
  equal to the threshold gets a well-defined value with no error. The code at that
  sample: \<^verbatim>\<open>_func\<close> raises ZeroDivisionError (integer formats), and the
  expression gives \<open>0/0\<close>, NaN (float formats).
\<close>

theorem make_mask_zero_overflow_boundary:
  "func thr 0 peak thr = Inl ZeroDivisionError \<and>
   make_mask thr thr 0 peak False = Inl ZeroDivisionError \<and>
   make_mask thr thr 0 peak True = Inr NaN"
proof -
  have "func thr 0 peak thr = Inl ZeroDivisionError"
    by (simp add: func_def py_truediv_def)
  moreover from this have "make_mask thr thr 0 peak False = Inl ZeroDivisionError"
    by (simp add: make_mask_def pick_px_op_def)
  moreover have "make_mask thr thr 0 peak True = Inr NaN"
    by (simp add: make_mask_float gradient_NaN)
  ultimately show ?thesis by simp
qed

section \<open>Properties of graining\<close>

lemma get_mod_table:
  "get_mod (sw, sh) =
     (if (sw, sh) = (0, 0) then Inr 1
      else if (sw, sh) \<in> {(1, 0), (0, 1), (1, 1)} then Inr 2
      else if (sw, sh) \<in> {(2, 0), (2, 2)} then Inr 4
      else Inl ValueError)"
  by (simp add: get_mod_def ss_mod_def)

lemma get_mod_nonzero: "get_mod ss = Inr m \<Longrightarrow> m \<in> {1, 2, 4}"
  by (cases ss) (auto simp: get_mod_table split: if_splits)

lemma ss_dim_value:
  "sz \<noteq> 0 \<Longrightarrow> m \<noteq> 0 \<Longrightarrow>
   ss_dim extent sz m = Inr (py_round (of_int extent / sz) - py_round (of_int extent / sz) mod m)"
  by (simp add: ss_dim_def py_truediv_def mod_floor_def)

lemma ss_dims_value:
  "sz \<noteq> 0 \<Longrightarrow> m \<noteq> 0 \<Longrightarrow>
   ss_dims w h sz m =
     Inr (py_round (of_int w / sz) - py_round (of_int w / sz) mod m,
          py_round (of_int h / sz) - py_round (of_int h / sz) mod m)"
  by (simp add: ss_dims_def ss_dim_value)

text \<open>
  C6. The modulus is 1 for the subsampling pair (0,0), 2 for (1,0), (0,1) and (1,1), 4
  for (2,0) and (2,2), and any other pair raises ValueError; and for a pair with a
  modulus, and a size that is not zero, both down-sampled dimensions of
  \<^verbatim>\<open>_make_grained\<close> are multiples of the modulus.
\<close>

theorem get_mod_dims:
  "get_mod (sw, sh) =
     (if (sw, sh) = (0, 0) then Inr 1
      else if (sw, sh) \<in> {(1, 0), (0, 1), (1, 1)} then Inr 2
      else if (sw, sh) \<in> {(2, 0), (2, 2)} then Inr 4
      else Inl ValueError) \<and>
   (\<forall>fmt. format clip = Some fmt \<longrightarrow>
      (color_family fmt = YUV \<or> color_family fmt = GRAY) \<longrightarrow>
      get_mod (subsampling_w fmt, subsampling_h fmt) = Inl ValueError \<longrightarrow>
      graining core g clip prefilter show_masks = (Inl ValueError, [])) \<and>
   (\<forall>m. get_mod (sw, sh) = Inr m \<longrightarrow> sz \<noteq> 0 \<longrightarrow>
      (\<exists>ss_w ss_h. ss_dims w h sz m = Inr (ss_w, ss_h) \<and> m dvd ss_w \<and> m dvd ss_h))"
proof (intro conjI allI impI)
  show "get_mod (sw, sh) =
     (if (sw, sh) = (0, 0) then Inr 1
      else if (sw, sh) \<in> {(1, 0), (0, 1), (1, 1)} then Inr 2
      else if (sw, sh) \<in> {(2, 0), (2, 2)} then Inr 4
      else Inl ValueError)"
    by (rule get_mod_table)
next
  fix fmt
  assume "format clip = Some fmt"
    and "color_family fmt = YUV \<or> color_family fmt = GRAY"
    and "get_mod (subsampling_w fmt, subsampling_h fmt) = Inl ValueError"
  then show "graining core g clip prefilter show_masks = (Inl ValueError, [])"
    by (auto simp: graining_def Let_def)
next
  fix m
  assume gm: "get_mod (sw, sh) = Inr m" and sz: "sz \<noteq> 0"
  from get_mod_nonzero [OF gm] have "m \<noteq> 0" by auto
  with sz show "\<exists>ss_w ss_h. ss_dims w h sz m = Inr (ss_w, ss_h) \<and> m dvd ss_w \<and> m dvd ss_h"
    by (simp add: ss_dims_value dvd_minus_mod)
qed

theorem get_mod_dims_witness:
  "get_mod (1, 1) = Inr 2 \<and> (3 / 2 :: real) \<noteq> 0 \<and>
   ss_dims 1918 1080 (3 / 2) 2 = Inr (1278, 720) \<and> (2::int) dvd 1278 \<and> (2::int) dvd 720 \<and>
   get_mod (3, 0) = Inl ValueError \<and>
   graining sample_core two_bands (flat_clip\<lparr>format := Some (yuv420p8\<lparr>subsampling_w := 3, subsampling_h := 0\<rparr>)\<rparr>)
     None False = (Inl ValueError, [])"
  using get_mod_dims [of 1 1 "flat_clip\<lparr>format := Some (yuv420p8\<lparr>subsampling_w := 3, subsampling_h := 0\<rparr>)\<rparr>"
      sample_core two_bands None False "3 / 2" 1918 1080]
  by (simp add: ss_dims_value py_round_def Let_def get_mod_table yuv420p8_def)

text \<open>
  C9. With \<^verbatim>\<open>show_masks=True\<close>, \<^verbatim>\<open>graining\<close> makes no invocation of
  \<^verbatim>\<open>Grainer.grain\<close>, whatever its input; and on a clip whose format passes the
  checks and whose masks are built, it returns the interleaved masks of the bands, each
  with the text of its threshold and the frame number.
\<close>

theorem graining_show_masks:
  "snd (graining core g clip prefilter True) = [] \<and>
   (\<forall>fmt m cum.
      format clip = Some fmt \<longrightarrow>
      (color_family fmt = YUV \<or> color_family fmt = GRAY) \<longrightarrow>
      get_mod (subsampling_w fmt, subsampling_h fmt) = Inr m \<longrightarrow>
      build_masks core (case prefilter of Some p \<Rightarrow> p | None \<Rightarrow> get_y core (node clip))
        (zip (thrs g) (overflows g)) (peak_of fmt) (sample_type fmt = FLOAT) = Inr cum \<longrightarrow>
      fst (graining core g clip prefilter True) =
        Inr (Interleave core
               (map (\<lambda>(thr, mask). FrameNum core (Text core mask (ThresholdLabel thr) 7) 9)
                  (zip (thrs g)
                     (chroma_masks core clip fmt
                        (exclusive_masks core
                           (BlankClip core
                              (case prefilter of Some p \<Rightarrow> p | None \<Rightarrow> get_y core (node clip))
                              None [0])
                           cum))))))"
proof (intro conjI allI impI)
  show "snd (graining core g clip prefilter True) = []"
    by (simp add: graining_def Let_def split: option.splits sum.splits)
next
  fix fmt m cum
  assume "format clip = Some fmt"
    and "color_family fmt = YUV \<or> color_family fmt = GRAY"
    and "get_mod (subsampling_w fmt, subsampling_h fmt) = Inr m"
    and "build_masks core (case prefilter of Some p \<Rightarrow> p | None \<Rightarrow> get_y core (node clip))
        (zip (thrs g) (overflows g)) (peak_of fmt) (sample_type fmt = FLOAT) = Inr cum"
  then show "fst (graining core g clip prefilter True) =
        Inr (Interleave core
               (map (\<lambda>(thr, mask). FrameNum core (Text core mask (ThresholdLabel thr) 7) 9)
                  (zip (thrs g)
                     (chroma_masks core clip fmt
                        (exclusive_masks core
                           (BlankClip core
                              (case prefilter of Some p \<Rightarrow> p | None \<Rightarrow> get_y core (node clip))
                              None [0])
                           cum)))))"
    by (auto simp: graining_def Let_def show_masks_clip_def)
qed

lemma exclusive_masks_nth:
  "exclusive_masks core blank cum =
     map (\<lambda>i. Expr core [cum ! i, (blank # cum) ! i] sub_expr) [0..<length cum]"
proof -
  have "[1..<length ([blank] @ cum)] = map Suc [0..<length cum]"
    by (simp add: map_Suc_upt del: upt_Suc)
  then show ?thesis
    by (simp add: exclusive_masks_def Let_def o_def del: upt_Suc)
qed

lemma exclusive_masks_zip:
  "exclusive_masks core blank cum =
     map (\<lambda>(a, b). Expr core [a, b] sub_expr) (zip cum (blank # cum))"
  unfolding exclusive_masks_nth
  by (rule nth_equalityI) simp_all

lemma sub_expr_px: "expr_px [Fin a, Fin b] sub_expr = Inr (Fin (a - b))"
  by (simp add: expr_px_def sub_expr_def fsub_def)

lemma telescope:
  fixes px :: "'c \<Rightarrow> real"
  assumes f: "\<And>a b. px (f a b) = px a - px b"
  shows "px blank + sum_list (map px (map (\<lambda>(a, b). f a b) (zip cum (blank # cum)))) =
         px (last (blank # cum))"
proof (induction cum arbitrary: blank)
  case Nil
  show ?case by simp
next
  case (Cons c cs)
  have "px blank + sum_list (map px (map (\<lambda>(a, b). f a b) (zip (c # cs) (blank # c # cs)))) =
        px c + sum_list (map px (map (\<lambda>(a, b). f a b) (zip cs (c # cs))))"
    by (simp add: f algebra_simps)
  also have "\<dots> = px (last (c # cs))"
    by (rule Cons.IH)
  finally show ?case by simp
qed

lemma blend_expr_px:
  "peak \<noteq> 0 \<Longrightarrow>
   expr_px [Fin x, Fin y, Fin z] (blend_expr peak) =
     Inr (Fin (x * (z / peak) + y * (1 - z / peak)))"
  by (simp add: expr_px_def blend_expr_def fsub_def)

lemma fold_out_foldl:
  "fold_out core clip out adgs =
     foldl (\<lambda>out clip_adg. MergeDiff core clip_adg (MakeDiff core clip out)) out adgs"
  by (induction adgs arbitrary: out) simp_all

lemma peak_of_nonzero: "0 < bits_per_sample fmt \<Longrightarrow> peak_of fmt \<noteq> 0"
proof -
  assume "0 < bits_per_sample fmt"
  then have "(2::real) ^ 1 \<le> 2 ^ bits_per_sample fmt"
    by (intro power_increasing) simp_all
  then show ?thesis by (simp add: peak_of_def)
qed


lemma build_masks_two_bands:
  "build_masks sample_core 100 [(64, 1 / 2), (128, 1 / 2)] 255 False = Inr [56, 184]"
  by (simp add: make_mask_clip_def sample_core_def pick_px_op_def func_def py_truediv_def
      py_round_def Let_def)


lemma two_bands_format:
  "format flat_clip = Some yuv420p8" "node flat_clip = 100"
  "color_family yuv420p8 = YUV" "bits_per_sample yuv420p8 = 8"
  "sample_type yuv420p8 = INTEGER" "num_planes yuv420p8 = 3"
  "get_mod (subsampling_w yuv420p8, subsampling_h yuv420p8) = Inr 2"
  "peak_of yuv420p8 = 255" "neutral_of yuv420p8 = [128, 128, 128]"
  by (simp_all add: flat_clip_def yuv420p8_def get_mod_table peak_of_def neutral_of_def
      py_repeat_def numeral_3_eq_3)

lemma two_bands_fields:
  "thrs two_bands = [64, 128]" "overflows two_bands = [1 / 2, 1 / 2]"
  "strengths two_bands = [(1, 0), (2, 0)]" "sizes two_bands = [1, 5000]"
  "sharps two_bands = [50, 60]" "grainers two_bands = [default_grainer, PlaceboGrain []]"
  by (simp_all add: two_bands_def)

lemma masks_two_bands:
  "chroma_masks sample_core flat_clip yuv420p8
     (exclusive_masks sample_core (BlankClip sample_core 100 None [0]) [56, 184]) = [56, 128]"
  by (simp add: chroma_masks_def two_bands_format exclusive_masks_zip sample_core_def
      sub_expr_px py_repeat_def numeral_3_eq_3)

theorem graining_show_masks_witness:
  "format flat_clip = Some yuv420p8 \<and> color_family yuv420p8 = YUV \<and>
   get_mod (subsampling_w yuv420p8, subsampling_h yuv420p8) = Inr 2 \<and>
   build_masks sample_core 100 (zip (thrs two_bands) (overflows two_bands)) 255 False =
     Inr [56, 184] \<and>
   graining sample_core two_bands flat_clip None True = (Inr 56, [])"
proof -
  have y: "get_y sample_core (100::real) = 100"
    by (simp add: sample_core_def)
  have i: "Interleave sample_core
             [FrameNum sample_core (Text sample_core 56 (ThresholdLabel 64) 7) 9,
              FrameNum sample_core (Text sample_core 128 (ThresholdLabel 128) 7) 9] = 56"
    by (simp add: sample_core_def)
  from graining_show_masks [of sample_core two_bands flat_clip None]
  have "snd (graining sample_core two_bands flat_clip None True) = []"
    and "fst (graining sample_core two_bands flat_clip None True) = Inr 56"
    by (simp_all add: two_bands_format two_bands_fields build_masks_two_bands masks_two_bands y i
        del: build_masks.simps)
  then have "graining sample_core two_bands flat_clip None True = (Inr 56, [])"
    by (simp add: prod_eq_iff)
  then show ?thesis
    by (simp add: two_bands_format two_bands_fields build_masks_two_bands del: build_masks.simps)
qed

section \<open>The mask of one band in float arithmetic\<close>

lemma step_fl_simps:
  fixes rnd :: "real \<Rightarrow> real"
  shows "step_fl rnd env ClipX st = step env ClipX st"
  "step_fl rnd env (Num k) st = Some (Fin (rnd k) # st)"
  "step_fl rnd env Add (b # a # st) = Some (fround rnd (fadd a b) # st)"
  "step_fl rnd env Sub (b # a # st) = Some (fround rnd (fsub a b) # st)"
  "step_fl rnd env Mul (b # a # st) = Some (fround rnd (fmul a b) # st)"
  "step_fl rnd env Div (b # a # st) = Some (fround rnd (fdiv a b) # st)"
  "step_fl rnd env Abs (a # st) = Some (fabs a # st)"
  "step_fl rnd env Ge (b # a # st) = Some (fbool (fle b a) # st)"
  "step_fl rnd env Le (b # a # st) = Some (fbool (fle a b) # st)"
  "step_fl rnd env Lt (b # a # st) = Some (fbool (flt a b) # st)"
  "step_fl rnd env Gt (b # a # st) = Some (fbool (flt b a) # st)"
  "step_fl rnd env And (b # a # st) = Some (fbool (truthy a \<and> truthy b) # st)"
  "step_fl rnd env Tern (c # b # a # st) = Some ((if truthy a then b else c) # st)"
  by (simp_all add: step_fl_def split: option.splits list.splits)

lemma step_fl_clip:
  fixes rnd :: "real \<Rightarrow> real"
  shows "step_fl rnd (x # env) ClipX st = Some (x # st)"
  "step_fl rnd (x # y # env) ClipY st = Some (y # st)"
  "step_fl rnd (x # y # z # env) ClipZ st = Some (z # st)"
  by (simp_all add: step_fl_def)

text \<open>
  With a rounding that changes nothing, the float definitions are the exact ones.
\<close>

lemma func_fl_exact: "func_fl (\<lambda>v. v) thr overflow peak x = func thr overflow peak x"
  by (simp add: func_fl_def func_def)

lemma fround_exact: "fround (\<lambda>v. v) a = a"
  by (cases a) simp_all

lemma step_fl_exact: "step_fl (\<lambda>v. v) env t st = step env t st"
  by (simp add: step_fl_def fround_exact split: option.splits list.splits)

lemma run_fl_exact: "run_fl (\<lambda>v. v) env ts st = run env ts st"
  by (induction ts arbitrary: st) (simp_all add: step_fl_exact split: option.splits)

lemma make_mask_fl_exact:
  "make_mask_fl (\<lambda>v. v) (\<lambda>v. v) x thr overflow peak is_float =
     make_mask x thr overflow peak is_float"
  by (simp add: make_mask_fl_def make_mask_def pick_px_op_fl_def pick_px_op_def
      expr_px_fl_def expr_px_def run_fl_exact func_fl_exact fun_eq_iff)

text \<open>
  The zone of zero width in float arithmetic: with \<open>overflow = 0\<close> and a threshold
  that is a float, \<^verbatim>\<open>_func\<close> divides by zero at the sample equal to the
  threshold, as it does over the reals.
\<close>

lemma func_fl_zero_overflow:
  fixes rnd :: "real \<Rightarrow> real"
  assumes "rnd 0 = 0" and "rnd thr = thr"
  shows "func_fl rnd thr 0 peak thr = Inl ZeroDivisionError"
  using assms by (simp add: func_fl_def py_truediv_def)

lemma run_fl_min_thr:
  fixes rnd :: "real \<Rightarrow> real"
  shows "rnd 2 \<noteq> 0 \<Longrightarrow>
   run_fl rnd env (min_thr_expr thr ovf peak @ rest) st =
     run_fl rnd env rest (Fin (min_thr_value rnd rnd thr ovf peak) # st)"
  by (simp add: min_thr_expr_def min_thr_value_def step_fl_simps fsub_Fin)

lemma run_fl_max_thr:
  fixes rnd :: "real \<Rightarrow> real"
  shows "rnd 2 \<noteq> 0 \<Longrightarrow>
   run_fl rnd env (max_thr_expr thr ovf peak @ rest) st =
     run_fl rnd env rest (Fin (max_thr_value rnd rnd thr ovf peak) # st)"
  by (simp add: max_thr_expr_def max_thr_value_def step_fl_simps)

lemma mask_expr_run_fl:
  fixes rnd :: "real \<Rightarrow> real"
  assumes "mask_defined rnd rnd thr ovf peak x"
  shows "run_fl rnd [Fin x] (mask_expr thr ovf peak) [] =
     Some [Fin (mask_value rnd rnd thr ovf peak x)]"
proof -
  from assms have two: "rnd 2 \<noteq> 0" by (simp add: mask_defined_def)
  let ?lo = "min_thr_value rnd rnd thr ovf peak"
  let ?hi = "max_thr_value rnd rnd thr ovf peak"
  have run: "run_fl rnd [Fin x] (mask_expr thr ovf peak) [] = Some [
     (if ?lo \<le> x \<and> x \<le> ?hi
      then fabs (fround rnd (fsub (fround rnd (fmul (fround rnd
             (fdiv (Fin (rnd (x - ?lo))) (Fin (rnd (?hi - ?lo))))) (Fin (rnd peak))))
             (Fin (rnd peak))))
      else if x < ?lo then Fin (rnd peak)
      else if ?hi < x then Fin (rnd 0) else Fin x)]"
    unfolding mask_expr_unfold
    using two
    by (simp add: run_fl_min_thr run_fl_max_thr step_fl_simps step_fl_clip
        fsub_Fin fbool_def truthy_def flt_def
        del: fdiv.simps fmul.simps fabs.simps)
  show ?thesis
  proof (cases "?lo \<le> x \<and> x \<le> ?hi")
    case True
    with assms have "rnd (?hi - ?lo) \<noteq> 0" by (simp add: mask_defined_def)
    with True show ?thesis
      by (simp add: run mask_value_def fsub_Fin Let_def)
  next
    case False
    then show ?thesis
      by (auto simp: run mask_value_def Let_def)
  qed
qed

lemma func_fl_value:
  assumes "mask_defined rnd (\<lambda>v. v) thr ovf peak x"
  shows "func_fl rnd thr ovf peak x = Inr (py_round (mask_value rnd (\<lambda>v. v) thr ovf peak x))"
  using assms
  by (auto simp: func_fl_def mask_defined_def mask_value_def min_thr_value_def max_thr_value_def
      py_truediv_def Let_def)

text \<open>
  C1, amended. For every reference sample \<open>x\<close>, threshold, overflow and peak such
  that the width of the zone, as the code computes it, is not zero when \<open>x\<close> lies in
  the zone: with \<open>min_thr = thr - overflow * peak / 2\<close> and
  \<open>max_thr = thr + overflow * peak / 2\<close>, the mask is
  \<open>|(x - min_thr) / (max_thr - min_thr) * peak - peak|\<close> when
  \<open>min_thr \<le> x \<le> max_thr\<close>, otherwise \<open>peak\<close> when \<open>x < min_thr\<close>, otherwise
  \<open>0\<close>, the three cases in this order and every operation rounded to a float: a
  double in \<^verbatim>\<open>_func\<close>, whose result \<^verbatim>\<open>round\<close> takes to an int on an integer
  format, and a single in the expression of a float format, which reads its constants
  as singles.
\<close>

theorem make_mask_fl_piecewise:
  assumes "mask_defined (if is_float then rnd32 else rnd64) (if is_float then rnd32 else (\<lambda>v. v))
             thr overflow peak x"
  shows "make_mask_fl rnd64 rnd32 x thr overflow peak is_float =
     Inr (Fin (if is_float then mask_value rnd32 rnd32 thr overflow peak x
               else of_int (py_round (mask_value rnd64 (\<lambda>v. v) thr overflow peak x))))"
proof (cases is_float)
  case True
  with assms have "mask_defined rnd32 rnd32 thr overflow peak x" by simp
  from mask_expr_run_fl [OF this] True show ?thesis
    by (simp add: make_mask_fl_def pick_px_op_fl_def expr_px_fl_def)
next
  case False
  with assms have "mask_defined rnd64 (\<lambda>v. v) thr overflow peak x" by simp
  from func_fl_value [OF this] False show ?thesis
    by (simp add: make_mask_fl_def pick_px_op_fl_def)
qed

text \<open>
  The value of \<open>fl\<close> at a number whose leading bit is known, and the roundings
  that the examples need.
\<close>

lemma fl_eval:
  assumes "2 powr of_int e \<le> \<bar>x\<bar>" and "\<bar>x\<bar> < 2 powr of_int (e + 1)"
  shows "fl p x = of_int (py_round (x / 2 powr of_int (e - int p + 1))) * 2 powr of_int (e - int p + 1)"
proof -
  from assms(1) have pos: "0 < \<bar>x\<bar>"
    by (rule less_le_trans [rotated]) simp
  then have "x \<noteq> 0" by simp
  have "\<lfloor>log 2 \<bar>x\<bar>\<rfloor> = e"
    using assms pos by (simp add: floor_log_eq_powr_iff)
  with \<open>x \<noteq> 0\<close> show ?thesis by (simp add: fl_def Let_def)
qed

lemma fl_0: "fl p 0 = 0"
  by (simp add: fl_def)

lemma fl_tie_1: "fl 53 (3685745935040014131 / 18014398509481984) = 1799680632343757 / 8796093022208"
  by (subst fl_eval [where e = "7"]) (simp_all add: py_round_def Let_def powr_minus_divide)

lemma fl_tie_2: "fl 53 (1799680632343757 / 17592186044416) = 1799680632343757 / 17592186044416"
  by (subst fl_eval [where e = "6"]) (simp_all add: py_round_def Let_def powr_minus_divide)

lemma fl_tie_3: "fl 53 (7207518622397235 / 17592186044416) = 7207518622397235 / 17592186044416"
  by (subst fl_eval [where e = "8"]) (simp_all add: py_round_def Let_def powr_minus_divide)

lemma fl_tie_4: "fl 53 (10806879887084749 / 17592186044416) = 2701719971771187 / 4398046511104"
  by (subst fl_eval [where e = "9"]) (simp_all add: py_round_def Let_def powr_minus_divide)

lemma fl_tie_5: "fl 53 (3599361264687513 / 17592186044416) = 3599361264687513 / 17592186044416"
  by (subst fl_eval [where e = "7"]) (simp_all add: py_round_def Let_def powr_minus_divide)

lemma fl_tie_6: "fl 53 (1799680632343757 / 3599361264687513) = 4503599627370497 / 9007199254740992"
  by (subst fl_eval [where e = "-1"]) (simp_all add: py_round_def Let_def powr_minus_divide)

lemma fl_tie_7: "fl 53 (4607182418800018431 / 9007199254740992) = 4499201580859393 / 8796093022208"
  by (subst fl_eval [where e = "8"]) (simp_all add: py_round_def Let_def powr_minus_divide)

lemma fl_tie_8: "fl 53 (- (4499201580859391 / 8796093022208)) = - (4499201580859391 / 8796093022208)"
  by (subst fl_eval [where e = "8"]) (simp_all add: py_round_def Let_def powr_minus_divide)

lemma fl_neg_1: "fl 53 (- 255) = - 255"
  by (subst fl_eval [where e = "7"]) (simp_all add: py_round_def Let_def powr_minus_divide)

lemma fl_neg_2: "fl 53 (- (255 / 2)) = - (255 / 2)"
  by (subst fl_eval [where e = "6"]) (simp_all add: py_round_def Let_def powr_minus_divide)

lemma fl_neg_3: "fl 53 (511 / 2) = 511 / 2"
  by (subst fl_eval [where e = "7"]) (simp_all add: py_round_def Let_def powr_minus_divide)

lemma fl_neg_4: "fl 53 (1 / 2) = 1 / 2"
  by (subst fl_eval [where e = "-1"]) (simp_all add: py_round_def Let_def powr_minus_divide)

lemma fl_band_1: "fl 53 (255 / 2) = 255 / 2"
  by (subst fl_eval [where e = "6"]) (simp_all add: py_round_def Let_def powr_minus_divide)

lemma fl_band_2: "fl 53 (255 / 4) = 255 / 4"
  by (subst fl_eval [where e = "5"]) (simp_all add: py_round_def Let_def powr_minus_divide)

lemma fl_band_3: "fl 53 (1 / 4) = 1 / 4"
  by (subst fl_eval [where e = "-2"]) (simp_all add: py_round_def Let_def powr_minus_divide)

lemma fl_band_4: "fl 53 (511 / 4) = 511 / 4"
  by (subst fl_eval [where e = "6"]) (simp_all add: py_round_def Let_def powr_minus_divide)

lemma fl_band_5: "fl 53 (399 / 4) = 399 / 4"
  by (subst fl_eval [where e = "6"]) (simp_all add: py_round_def Let_def powr_minus_divide)

lemma fl_band_6: "fl 53 (133 / 170) = 7046808828709129 / 9007199254740992"
  by (subst fl_eval [where e = "-1"]) (simp_all add: py_round_def Let_def powr_minus_divide)

lemma fl_band_7: "fl 53 (1796936251320827895 / 9007199254740992) = 399 / 2"
  by (subst fl_eval [where e = "7"]) (simp_all add: py_round_def Let_def powr_minus_divide)

lemma fl_band_8: "fl 53 (- (111 / 2)) = - (111 / 2)"
  by (subst fl_eval [where e = "5"]) (simp_all add: py_round_def Let_def powr_minus_divide)

lemma fl_single_1: "fl 24 (1 / 2) = 1 / 2"
  by (subst fl_eval [where e = "-1"]) (simp_all add: py_round_def Let_def powr_minus_divide)

lemma fl_single_2: "fl 24 (1) = 1"
  by (subst fl_eval [where e = "0"]) (simp_all add: py_round_def Let_def powr_minus_divide)

lemma fl_single_3: "fl 24 (2) = 2"
  by (subst fl_eval [where e = "1"]) (simp_all add: py_round_def Let_def powr_minus_divide)

lemma fl_single_4: "fl 24 (1 / 4) = 1 / 4"
  by (subst fl_eval [where e = "-2"]) (simp_all add: py_round_def Let_def powr_minus_divide)

lemma fl_single_5: "fl 24 (3 / 4) = 3 / 4"
  by (subst fl_eval [where e = "-1"]) (simp_all add: py_round_def Let_def powr_minus_divide)

lemma fl_single_6: "fl 24 (1 / 8) = 1 / 8"
  by (subst fl_eval [where e = "-3"]) (simp_all add: py_round_def Let_def powr_minus_divide)

lemma fl_single_7: "fl 24 (- (3 / 4)) = - (3 / 4)"
  by (subst fl_eval [where e = "-1"]) (simp_all add: py_round_def Let_def powr_minus_divide)

lemmas fl_values = fl_0 fl_tie_1 fl_tie_2 fl_tie_3 fl_tie_4 fl_tie_5 fl_tie_6 fl_tie_7 fl_tie_8
  fl_neg_1 fl_neg_2 fl_neg_3 fl_neg_4
  fl_band_1 fl_band_2 fl_band_3 fl_band_4 fl_band_5 fl_band_6 fl_band_7 fl_band_8
  fl_single_1 fl_single_2 fl_single_3 fl_single_4 fl_single_5 fl_single_6 fl_single_7

text \<open>
  C1, as the claim states it, fails on an integer format. At \<open>thr = 512\<close>,
  \<open>overflow = 0.2\<close> (the double nearest to it), \<open>peak = 1023\<close> and \<open>x = 512\<close>
  the formula of the claim is 511.5 over the reals, which rounds to 512, and
  \<^verbatim>\<open>_func\<close>, on doubles, returns 511. At a negative overflow, \<open>thr = 128\<close>,
  \<open>overflow = -1\<close>, \<open>peak = 255\<close> and \<open>x = 128\<close>, the sample is above
  \<open>max_thr\<close>, where the claim gives 0, and \<^verbatim>\<open>_func\<close> returns \<open>peak\<close>, the
  sample being below \<open>min_thr\<close> as well.
\<close>

theorem make_mask_fl_tie:
  "make_mask_fl (fl 53) (fl 24) 512 512 (3602879701896397 / 18014398509481984) 1023 False =
     Inr (Fin 511) \<and>
   py_round \<bar>(512 - (512 - 3602879701896397 / 18014398509481984 * 1023 / 2)) /
       ((512 + 3602879701896397 / 18014398509481984 * 1023 / 2) -
        (512 - 3602879701896397 / 18014398509481984 * 1023 / 2)) * 1023 - 1023\<bar> = 512 \<and>
   make_mask_fl (fl 53) (fl 24) 128 128 (- 1) 255 False = Inr (Fin 255) \<and>
   (128 + (- 1) * 255 / 2 :: real) < 128"
  by (simp add: make_mask_fl_def pick_px_op_fl_def func_fl_def py_truediv_def Let_def
      fl_values py_round_def)

theorem make_mask_fl_piecewise_witness:
  "mask_defined (fl 53) (\<lambda>v. v) 64 (1 / 2) 255 100 \<and>
   make_mask_fl (fl 53) (fl 24) 100 64 (1 / 2) 255 False = Inr (Fin 56) \<and>
   mask_defined (fl 24) (fl 24) (1 / 2) (1 / 2) 1 (3 / 8) \<and>
   make_mask_fl (fl 53) (fl 24) (3 / 8) (1 / 2) (1 / 2) 1 True = Inr (Fin (3 / 4))"
proof -
  have d1: "mask_defined (fl 53) (\<lambda>v. v) 64 (1 / 2) 255 100"
    by (simp add: mask_defined_def min_thr_value_def max_thr_value_def fl_values)
  have d2: "mask_defined (fl 24) (fl 24) (1 / 2) (1 / 2) 1 (3 / 8)"
    by (simp add: mask_defined_def min_thr_value_def max_thr_value_def fl_values)
  have v1: "mask_value (fl 53) (\<lambda>v. v) 64 (1 / 2) 255 100 = 111 / 2"
    by (simp add: mask_value_def min_thr_value_def max_thr_value_def fl_values Let_def)
  have v2: "mask_value (fl 24) (fl 24) (1 / 2) (1 / 2) 1 (3 / 8) = 3 / 4"
    by (simp add: mask_value_def min_thr_value_def max_thr_value_def fl_values Let_def)
  have r: "py_round (111 / 2) = 56"
    by (simp add: py_round_def Let_def)
  from make_mask_fl_piecewise [of False "fl 24" "fl 53" 64 "1 / 2" 255 100]
    make_mask_fl_piecewise [of True "fl 24" "fl 53" "1 / 2" "1 / 2" 1 "3 / 8"] d1 d2
  show ?thesis
    by (simp add: v1 v2 r)
qed

section \<open>The exclusive masks as stored\<close>





















lemma sub_expr_px_fl:
  fixes rnd :: "real \<Rightarrow> real"
  shows "expr_px_fl rnd [Fin a, Fin b] sub_expr = Inr (Fin (rnd (a - b)))"
  by (simp add: expr_px_fl_def sub_expr_def step_fl_simps step_fl_clip fsub_Fin)




lemma peak_of_floor: "sample_type fmt \<noteq> FLOAT \<Longrightarrow> \<lfloor>peak_of fmt\<rfloor> = 2 ^ bits_per_sample fmt - 1"
proof -
  assume "sample_type fmt \<noteq> FLOAT"
  then have "peak_of fmt = of_int (2 ^ bits_per_sample fmt - 1)"
    by (simp add: peak_of_def)
  then show ?thesis by (simp only: floor_of_int)
qed




lemma lib_core_stores: "expr_stores rnd fmt (\<lambda>c. c) (lib_core rnd fmt)"
  by (simp add: expr_stores_def lib_core_def)

lemma gray8_fields:
  "sample_type gray8 = INTEGER" "peak_of gray8 = 255" "bits_per_sample gray8 = 8"
  "num_planes gray8 = 1" "color_family gray8 = GRAY"
  "get_mod (subsampling_w gray8, subsampling_h gray8) = Inr 1"
  "neutral_of gray8 = [128]" "store_of gray8 = store_int 255"
  by (simp_all add: gray8_def peak_of_def neutral_of_def py_repeat_def get_mod_table
      store_of_def fun_eq_iff)

lemma lib_core_sub:
  "Expr (lib_core rnd fmt) [a, b] sub_expr = store_of fmt (rnd (a - b))"
  by (simp add: lib_core_def sub_expr_px_fl)



section \<open>The blended layers and the fold\<close>

lemma fl_blend_1: "fl 24 (255) = 255"
  by (subst fl_eval [where e = "7"]) (simp_all add: py_round_def Let_def powr_minus_divide)

lemma fl_blend_2: "fl 24 (128 / 255) = 8421505 / 16777216"
  by (subst fl_eval [where e = "-1"]) (simp_all add: py_round_def Let_def powr_minus_divide)

lemma fl_blend_3: "fl 24 (75793545 / 2097152) = 9474193 / 262144"
  by (subst fl_eval [where e = "5"]) (simp_all add: py_round_def Let_def powr_minus_divide)

lemma fl_blend_4: "fl 24 (1) = 1"
  by (subst fl_eval [where e = "0"]) (simp_all add: py_round_def Let_def powr_minus_divide)

lemma fl_blend_5: "fl 24 (8355711 / 16777216) = 8355711 / 16777216"
  by (subst fl_eval [where e = "-2"]) (simp_all add: py_round_def Let_def powr_minus_divide)

lemma fl_blend_6: "fl 24 (208892775 / 4194304) = 6527899 / 131072"
  by (subst fl_eval [where e = "5"]) (simp_all add: py_round_def Let_def powr_minus_divide)

lemma fl_blend_7: "fl 24 (22529991 / 262144) = 2816249 / 32768"
  by (subst fl_eval [where e = "6"]) (simp_all add: py_round_def Let_def powr_minus_divide)

lemma fl_blend_8: "fl 24 (56 / 255) = 14737633 / 67108864"
  by (subst fl_eval [where e = "-3"]) (simp_all add: py_round_def Let_def powr_minus_divide)

lemma fl_blend_9: "fl 24 (368440825 / 16777216) = 719611 / 32768"
  by (subst fl_eval [where e = "4"]) (simp_all add: py_round_def Let_def powr_minus_divide)

lemma fl_blend_10: "fl 24 (52371231 / 67108864) = 1636601 / 2097152"
  by (subst fl_eval [where e = "-1"]) (simp_all add: py_round_def Let_def powr_minus_divide)

lemma fl_blend_11: "fl 24 (40915025 / 524288) = 2557189 / 32768"
  by (subst fl_eval [where e = "6"]) (simp_all add: py_round_def Let_def powr_minus_divide)

lemma fl_blend_12: "fl 24 (100) = 100"
  by (subst fl_eval [where e = "6"]) (simp_all add: py_round_def Let_def powr_minus_divide)

lemma fl_blend_13: "fl 24 (210537625 / 4194304) = 6579301 / 131072"
  by (subst fl_eval [where e = "5"]) (simp_all add: py_round_def Let_def powr_minus_divide)

lemma fl_blend_14: "fl 24 (56) = 56"
  by (subst fl_eval [where e = "5"]) (simp_all add: py_round_def Let_def powr_minus_divide)

lemma fl_blend_15: "fl 24 (128) = 128"
  by (subst fl_eval [where e = "7"]) (simp_all add: py_round_def Let_def powr_minus_divide)

lemmas fl_blend_values = fl_blend_1 fl_blend_2 fl_blend_3 fl_blend_4 fl_blend_5 fl_blend_6 fl_blend_7 fl_blend_8 fl_blend_9 fl_blend_10 fl_blend_11 fl_blend_12 fl_blend_13 fl_blend_14 fl_blend_15

lemma blend_expr_px_fl:
  fixes rnd :: "real \<Rightarrow> real"
  assumes "rnd peak \<noteq> 0"
  shows "expr_px_fl rnd [Fin x, Fin y, Fin z] (blend_expr peak) =
     Inr (Fin (blend_value rnd peak x y z))"
  using assms
  by (simp add: expr_px_fl_def blend_expr_def blend_value_def step_fl_simps step_fl_clip fsub_Fin)

lemma expr_stores_blend:
  fixes px :: "'c \<Rightarrow> real"
  assumes "expr_stores rnd fmt px core" and "rnd peak \<noteq> 0"
  shows "px (Expr core [g, c, m] (blend_expr peak)) =
     store_of fmt (blend_value rnd peak (px g) (px c) (px m))"
  using assms blend_expr_px_fl [of rnd peak "px g" "px c" "px m"]
  by (simp add: expr_stores_def)

text \<open>
  C2, amended. On a clip that passes the checks, with the masks and the grained clips
  built: the blended layer of each band holds, at every sample position, the value
  \<open>grained * (mask / peak) + clip * (1 - mask / peak)\<close> as the evaluator computes
  and stores it, every operation rounded to a single and the result, on an integer
  format, rounded to an integer and kept within 0 and \<open>peak\<close>; and the clip returned
  is the fold \<open>out := MergeDiff(blended, MakeDiff(clip, out))\<close> over the bands in
  order, from \<open>out = clip\<close>.
\<close>

theorem graining_blend_fold:
  fixes px :: "'c \<Rightarrow> real"
  assumes sem: "expr_stores rnd fmt px core"
    and fmt: "format clip = Some fmt"
    and cf: "color_family fmt = YUV \<or> color_family fmt = GRAY"
    and peak: "rnd (peak_of fmt) \<noteq> 0"
    and m: "get_mod (subsampling_w fmt, subsampling_h fmt) = Inr m"
    and pref: "pref = (case prefilter of Some p \<Rightarrow> p | None \<Rightarrow> get_y core (node clip))"
    and cum: "build_masks core pref (zip (thrs g) (overflows g)) (peak_of fmt)
                (sample_type fmt = FLOAT) = Inr cum"
    and masks: "masks = chroma_masks core clip fmt
                  (exclusive_masks core (BlankClip core pref None [0]) cum)"
    and gr: "make_graineds core clip (neutral_of fmt) m
               (zip (strengths g) (zip (sizes g) (zip (sharps g) (grainers g)))) =
             (Inr graineds, calls)"
    and adg: "blended = clips_adg core (node clip) (peak_of fmt) graineds masks"
  shows "length blended = min (length graineds) (length masks) \<and>
     (\<forall>i<length blended.
        px (blended ! i) =
          store_of fmt
            (blend_value rnd (peak_of fmt) (px (graineds ! i)) (px (node clip)) (px (masks ! i)))) \<and>
     graining core g clip prefilter False =
       (Inr (foldl (\<lambda>out clip_adg. MergeDiff core clip_adg (MakeDiff core (node clip) out))
               (node clip) blended),
        calls)"
proof (intro conjI allI impI)
  show len: "length blended = min (length graineds) (length masks)"
    by (simp add: adg clips_adg_def)
  fix i assume "i < length blended"
  with len have "i < length graineds" "i < length masks" by simp_all
  then have "blended ! i = Expr core [graineds ! i, node clip, masks ! i] (blend_expr (peak_of fmt))"
    by (simp add: adg clips_adg_def)
  then show "px (blended ! i) =
          store_of fmt
            (blend_value rnd (peak_of fmt) (px (graineds ! i)) (px (node clip)) (px (masks ! i)))"
    using expr_stores_blend [of rnd fmt px core "peak_of fmt"] sem peak by simp
next
  from cf have cf': "\<not> (color_family fmt \<noteq> YUV \<and> color_family fmt \<noteq> GRAY)" by simp
  show "graining core g clip prefilter False =
       (Inr (foldl (\<lambda>out clip_adg. MergeDiff core clip_adg (MakeDiff core (node clip) out))
               (node clip) blended),
        calls)"
    using fmt cf' m cum [unfolded pref] gr
    by (simp add: graining_def Let_def fold_out_foldl adg masks pref)
qed

lemma lib_core_blend:
  "rnd peak \<noteq> 0 \<Longrightarrow>
   Expr (lib_core rnd fmt) [x, y, z] (blend_expr peak) = store_of fmt (blend_value rnd peak x y z)"
  by (simp add: lib_core_def blend_expr_px_fl)

text \<open>
  C2, as the claim states it, fails on an integer format: the blended layer holds a
  sample of the format, not the value of the formula. On an 8-bit clip of sample 100,
  with a grained difference of 72 and a mask of 128, the formula is
  \<open>21916 / 255\<close>, and the layer holds 86.
\<close>

theorem blended_layer_rounded:
  "clips_adg (lib_core (fl 24) gray8) 100 255 [72] [128] = [86] \<and>
   (72 * (128 / 255) + 100 * (1 - 128 / 255) :: real) = 21916 / 255 \<and>
   (21916 / 255 :: real) \<noteq> 86"
  by (simp add: clips_adg_def lib_core_blend blend_value_def gray8_fields fl_blend_values
      store_int_def py_round_def Let_def)

lemma bands_fields:
  "thrs fine_bands = [257 / 4, 513 / 4]" "overflows fine_bands = [1 / 2, 1 / 2]"
  "strengths fine_bands = [(1, 0), (2, 0)]" "sizes fine_bands = [1, 2]"
  "sharps fine_bands = [50, 60]" "grainers fine_bands = [default_grainer, PlaceboGrain []]"
  "thrs coarse_bands = [257 / 4, 513 / 4]" "overflows coarse_bands = [1 / 2, 1 / 2]"
  "strengths coarse_bands = [(1, 0), (2, 0)]" "sizes coarse_bands = [1, 5000]"
  "sharps coarse_bands = [50, 60]" "grainers coarse_bands = [default_grainer, PlaceboGrain []]"
  by (simp_all add: fine_bands_def coarse_bands_def)

lemma gray_clip_fields:
  "format gray_clip = Some gray8" "node gray_clip = 100"
  "width gray_clip = 1920" "height gray_clip = 1080"
  by (simp_all add: gray_clip_def)

lemma lib_core_calls:
  "get_y (lib_core rnd fmt) c = c"
  "BlankClip (lib_core rnd fmt) c dims [v] = v"
  "BlankClipSized (lib_core rnd fmt) c (w, h) [v] = (if w \<le> 0 \<or> h \<le> 0 then Inl VsError else Inr v)"
  "grain (lib_core rnd fmt) gr c s = Inr c"
  "Bicubic (lib_core rnd fmt) c w h b d = c"
  "MakeDiff (lib_core rnd gray8) a b = store_int 255 (a - b + 128)"
  "MergeDiff (lib_core rnd gray8) a b = store_int 255 (a + b - 128)"
  by (simp_all add: lib_core_def gray8_fields)

lemma build_masks_fine:
  "build_masks (lib_core (fl 24) gray8) 100 [(257 / 4, 1 / 2), (513 / 4, 1 / 2)] 255 False =
     Inr [56, 184]"
  by (simp add: make_mask_clip_def lib_core_def pick_px_op_fl_def func_def py_truediv_def
      py_round_def Let_def)

lemma masks_fine:
  "chroma_masks (lib_core (fl 24) gray8) gray_clip gray8
     (exclusive_masks (lib_core (fl 24) gray8) 0 [56, 184]) = [56, 128]"
  by (simp add: chroma_masks_def gray8_fields exclusive_masks_zip lib_core_sub fl_blend_values
      store_int_def py_round_def Let_def)

lemma store_int_values:
  "store_int 255 100 = 100" "store_int 255 128 = 128"
  by (simp_all add: store_int_def py_round_def Let_def)

lemma make_graineds_fine:
  "make_graineds (lib_core (fl 24) gray8) gray_clip [128] 1
     [((1, 0), 1, 50, default_grainer), ((2, 0), 2, 60, PlaceboGrain [])] =
   (Inr [100, 100],
    [(default_grainer, (1920, 1080), (1, 0)), (PlaceboGrain [], (960, 540), (2, 0))])"
  by (simp add: make_grained_def ss_dims_value py_round_def Let_def gray_clip_fields
      lib_core_calls store_int_values)

lemma clips_adg_fine:
  "clips_adg (lib_core (fl 24) gray8) 100 255 [100, 100] [56, 128] = [100, 100]"
  by (simp add: clips_adg_def lib_core_blend blend_value_def gray8_fields fl_blend_values
      store_int_values)

theorem graining_blend_fold_witness:
  "expr_stores (fl 24) gray8 (\<lambda>c. c) (lib_core (fl 24) gray8) \<and>
   build_masks (lib_core (fl 24) gray8) 100 (zip (thrs fine_bands) (overflows fine_bands)) 255 False =
     Inr [56, 184] \<and>
   clips_adg (lib_core (fl 24) gray8) 100 255 [100, 100] [56, 128] = [100, 100] \<and>
   graining (lib_core (fl 24) gray8) fine_bands gray_clip None False =
     (Inr 100, [(default_grainer, (1920, 1080), (1, 0)), (PlaceboGrain [], (960, 540), (2, 0))])"
proof -
  let ?core = "lib_core (fl 24) gray8"
  have cf: "color_family gray8 = YUV \<or> color_family gray8 = GRAY"
    by (simp add: gray8_fields)
  have peak: "fl 24 (peak_of gray8) \<noteq> 0"
    by (simp add: gray8_fields fl_blend_values)
  have pref: "(100::real) = (case None of Some p \<Rightarrow> p | None \<Rightarrow> get_y ?core (node gray_clip))"
    by (simp add: lib_core_calls gray_clip_fields)
  have cum: "build_masks ?core 100 (zip (thrs fine_bands) (overflows fine_bands))
      (peak_of gray8) (sample_type gray8 = FLOAT) = Inr [56, 184]"
    by (simp add: gray8_fields bands_fields build_masks_fine del: build_masks.simps)
  have masks: "[56, 128] = chroma_masks ?core gray_clip gray8
      (exclusive_masks ?core (BlankClip ?core 100 None [0]) [56, 184])"
    by (simp add: masks_fine lib_core_calls)
  have gr: "make_graineds ?core gray_clip (neutral_of gray8) 1
      (zip (strengths fine_bands) (zip (sizes fine_bands) (zip (sharps fine_bands) (grainers fine_bands)))) =
      (Inr [100, 100],
       [(default_grainer, (1920, 1080), (1, 0)), (PlaceboGrain [], (960, 540), (2, 0))])"
    by (simp add: gray8_fields bands_fields make_graineds_fine del: make_graineds.simps)
  have adg: "[100, 100] = clips_adg ?core (node gray_clip) (peak_of gray8) [100, 100] [56, 128]"
    by (simp add: gray8_fields gray_clip_fields clips_adg_fine)
  from graining_blend_fold [OF lib_core_stores gray_clip_fields(1) cf peak gray8_fields(6)
      pref cum masks gr adg]
  have "graining ?core fine_bands gray_clip None False =
     (Inr 100, [(default_grainer, (1920, 1080), (1, 0)), (PlaceboGrain [], (960, 540), (2, 0))])"
    by (simp add: gray_clip_fields lib_core_calls store_int_values)
  with cum show ?thesis
    by (simp add: lib_core_stores clips_adg_fine gray8_fields)
qed

section \<open>Bands with an empty down-sampled size\<close>












end
